theory Spec2Isabelle
  imports Main
begin

section \<open>Error taxonomy (core/errors.ts)\<close>

text \<open>
  The six error codes and the two phases of the library, as the string unions
  \<^verbatim>\<open>UploadErrorCode\<close> and \<^verbatim>\<open>UploadPhase\<close> declare them.
\<close>

datatype UploadErrorCode = NETWORK | TIMEOUT | EXPIRED | ABORTED | BAD_REQUEST | SERVER

datatype UploadPhase = PhaseInit | PhaseUpload

text \<open>
  The \<^verbatim>\<open>detail\<close> field is \<^verbatim>\<open>unknown\<close> in the source. The values the library
  itself stores there are: the generic \<^verbatim>\<open>Error\<close> that was normalised (its name and
  message), a thrown value that is no \<^verbatim>\<open>Error\<close>, a response body, or the object
  \<^verbatim>\<open>{ status, statusText, responseBody }\<close>. A response body is kept as its text;
  \<open>None\<close> is \<^verbatim>\<open>undefined\<close>.
\<close>

datatype detail =
    DetailError string string
  | DetailValue string
  | DetailBody string
  | DetailResponse int string "string option"

record UploadError =
  message :: string
  phase :: UploadPhase
  code :: UploadErrorCode
  status :: "int option"
  detail :: "detail option"

text \<open>
  What a \<^verbatim>\<open>catch\<close> clause can receive: an \<^verbatim>\<open>UploadError\<close>, another
  \<^verbatim>\<open>Error\<close> (name and message), or a value that is not an \<^verbatim>\<open>Error\<close>.
\<close>

datatype thrown =
    ThrownUploadError UploadError
  | ThrownError string string
  | ThrownOther string

definition createNetworkError :: "UploadPhase \<Rightarrow> string \<Rightarrow> detail option \<Rightarrow> UploadError" where
  "createNetworkError ph msg d =
     \<lparr>message = msg, phase = ph, code = NETWORK, status = None, detail = d\<rparr>"

text \<open>The message parameters with a default take \<open>None\<close> for an omitted argument.\<close>

definition createTimeoutError :: "UploadPhase \<Rightarrow> string option \<Rightarrow> UploadError" where
  "createTimeoutError ph msg =
     \<lparr>message = (case msg of None \<Rightarrow> ''Request timed out'' | Some m \<Rightarrow> m),
      phase = ph, code = TIMEOUT, status = None, detail = None\<rparr>"

definition createAbortError :: "UploadPhase \<Rightarrow> string option \<Rightarrow> UploadError" where
  "createAbortError ph msg =
     \<lparr>message = (case msg of None \<Rightarrow> ''Upload was aborted'' | Some m \<Rightarrow> m),
      phase = ph, code = ABORTED, status = None, detail = None\<rparr>"

definition createExpiredError :: "UploadPhase \<Rightarrow> string option \<Rightarrow> UploadError" where
  "createExpiredError ph msg =
     \<lparr>message = (case msg of None \<Rightarrow> ''Presigned URL has expired'' | Some m \<Rightarrow> m),
      phase = ph, code = EXPIRED, status = Some 403, detail = None\<rparr>"

definition createServerError ::
  "UploadPhase \<Rightarrow> int \<Rightarrow> string \<Rightarrow> detail option \<Rightarrow> UploadError" where
  "createServerError ph st msg d =
     \<lparr>message = msg, phase = ph, code = SERVER, status = Some st, detail = d\<rparr>"

definition createBadRequestError ::
  "UploadPhase \<Rightarrow> int \<Rightarrow> string \<Rightarrow> detail option \<Rightarrow> UploadError" where
  "createBadRequestError ph st msg d =
     \<lparr>message = msg, phase = ph, code = BAD_REQUEST, status = Some st, detail = d\<rparr>"

text \<open>
  \<^verbatim>\<open>isRetryableError\<close>. The test \<^verbatim>\<open>error.status && error.status >= 500\<close> is false
  for a missing status and for the falsy number 0. The function receives the error only:
  the retry policy is not among its parameters.
\<close>

definition isRetryableError :: "UploadError \<Rightarrow> bool" where
  "isRetryableError e =
     (if code e = NETWORK \<or> code e = TIMEOUT then True
      else if code e = SERVER \<and>
              (case status e of None \<Rightarrow> False | Some s \<Rightarrow> s \<noteq> 0 \<and> s \<ge> 500) then True
      else if code e = EXPIRED \<and> status e = Some 403 then True
      else False)"

definition requiresReinit :: "UploadError \<Rightarrow> bool" where
  "requiresReinit e = (code e = EXPIRED \<and> status e = Some 403)"

definition normalizeError :: "thrown \<Rightarrow> UploadPhase \<Rightarrow> string \<Rightarrow> UploadError" where
  "normalizeError err ph defaultMessage =
     (case err of
        ThrownUploadError e \<Rightarrow> e
      | ThrownError nm msg \<Rightarrow>
          if nm = ''AbortError'' then createAbortError ph (Some msg)
          else if nm = ''TimeoutError'' then createTimeoutError ph (Some msg)
          else createNetworkError ph msg (Some (DetailError nm msg))
      | ThrownOther v \<Rightarrow> createNetworkError ph defaultMessage (Some (DetailValue v)))"

definition default_normalize_message :: string where
  "default_normalize_message = ''An unexpected error occurred''"

text \<open>Decimal rendering of a number inside a template literal.\<close>

fun digits_of_nat :: "nat \<Rightarrow> string" where
  "digits_of_nat n =
     (if n < 10 then [char_of (48 + n)]
      else digits_of_nat (n div 10) @ [char_of (48 + n mod 10)])"

definition string_of_int :: "int \<Rightarrow> string" where
  "string_of_int i = (if i < 0 then CHR ''-'' # digits_of_nat (nat (- i)) else digits_of_nat (nat i))"

definition createErrorFromResponse ::
  "UploadPhase \<Rightarrow> int \<Rightarrow> string \<Rightarrow> string option \<Rightarrow> UploadError" where
  "createErrorFromResponse ph st statusText responseBody =
     (let msg = ''HTTP '' @ string_of_int st @ '': '' @ statusText in
      if st \<ge> 400 \<and> st < 500 then
        (if st = 403 then createExpiredError ph (Some msg)
         else createBadRequestError ph st msg (map_option DetailBody responseBody))
      else if st \<ge> 500 then createServerError ph st msg (map_option DetailBody responseBody)
      else createNetworkError ph msg (Some (DetailResponse st statusText responseBody)))"

section \<open>Retry policy and backoff (core/createUploader.ts)\<close>

datatype Backoff = Linear | Exponential

record RetryConfig =
  retries :: int
  backoff :: Backoff
  minDelayMs :: int
  maxDelayMs :: int
  reinitOnAuthError :: bool

definition DEFAULT_RETRY_CONFIG :: RetryConfig where
  "DEFAULT_RETRY_CONFIG =
     \<lparr>retries = 0, backoff = Exponential, minDelayMs = 500, maxDelayMs = 4000,
      reinitOnAuthError = True\<rparr>"

text \<open>
  The delays are JavaScript numbers, that is IEEE 754 doubles. The fields of the policy
  hold whole numbers of milliseconds, so the values that the delay computation can reach
  are: a whole number, an odd number of halves (from \<^verbatim>\<open>Math.pow(2, -1)\<close>), \<^verbatim>\<open>NaN\<close>
  and the two infinities. \<open>Halves n\<close> is the number \<open>n / 2\<close>.
\<close>

datatype jsdouble = Whole int | Halves int | NotANumber | PlusInfinity | MinusInfinity

text \<open>The number of binary digits of a positive integer.\<close>

function bit_length :: "int \<Rightarrow> nat" where
  "bit_length n = (if n \<le> 0 then 0 else Suc (bit_length (n div 2)))"
  by pat_completeness auto
termination
  by (relation "measure nat") auto

text \<open>
  The double nearest to the positive quotient \<open>num / den\<close>, as a significand \<open>m\<close> of 53
  bits and an exponent \<open>e\<close>: the number \<open>m * 2 ^ e\<close>. Of two nearest doubles the one with
  the even significand is taken (round to nearest, ties to even, the rounding of every
  arithmetic operation of JavaScript). Overflow is left to the caller; underflow is out of
  reach of the quotients formed here.
\<close>

definition scale_ratio :: "int \<Rightarrow> int \<Rightarrow> int \<Rightarrow> int \<times> int" where
  "scale_ratio num den e =
     (if e < 0 then (num * 2 ^ nat (- e), den) else (num, den * 2 ^ nat e))"

definition round_ratio :: "int \<Rightarrow> int \<Rightarrow> int \<times> int" where
  "round_ratio num den =
     (let e0 = int (bit_length num) - int (bit_length den) - 53;
          e = (case scale_ratio num den e0 of
                 (n, d) \<Rightarrow> if n div d < 2 ^ 53 then e0 else e0 + 1)
      in case scale_ratio num den e of
           (n, d) \<Rightarrow>
             (let q = n div d; r = n mod d
              in (if 2 * r > d \<or> (2 * r = d \<and> odd q) then q + 1 else q, e)))"

text \<open>
  The double that an arithmetic operation returns when its exact result is the integer
  \<open>x\<close>: \<open>x\<close> itself below \<open>2 ^ 53\<close> in magnitude, the nearest double beyond, an
  infinity from \<open>2 ^ 1024\<close> on.
\<close>

definition round_double :: "int \<Rightarrow> jsdouble" where
  "round_double x =
     (if \<bar>x\<bar> < 2 ^ 53 then Whole x
      else
        (case round_ratio \<bar>x\<bar> 1 of
           (m, e) \<Rightarrow>
             (let v = m * 2 ^ nat e
              in if v \<ge> 2 ^ 1024 then (if x > 0 then PlusInfinity else MinusInfinity)
                 else Whole (if x > 0 then v else - v))))"

text \<open>
  \<^verbatim>\<open>minDelayMs * attempt\<close>, the product of two whole numbers that are doubles (a field
  of the policy is one, and so is the loop counter): the exact product, rounded once.
\<close>

definition delay_linear :: "int \<Rightarrow> nat \<Rightarrow> jsdouble" where
  "delay_linear m attempt = round_double (m * int attempt)"

text \<open>
  \<^verbatim>\<open>minDelayMs * Math.pow(2, attempt - 1)\<close>. The power is \<^verbatim>\<open>0.5\<close> for attempt 0, the
  exact power of two up to the exponent 1023 and \<^verbatim>\<open>Infinity\<close> from the exponent 1024
  on; zero times \<^verbatim>\<open>Infinity\<close> is \<^verbatim>\<open>NaN\<close>.
\<close>

definition delay_exponential :: "int \<Rightarrow> nat \<Rightarrow> jsdouble" where
  "delay_exponential m attempt =
     (if attempt = 0 then (if even m then Whole (m div 2) else Halves m)
      else if attempt - 1 \<ge> 1024 then
        (if m = 0 then NotANumber else if m > 0 then PlusInfinity else MinusInfinity)
      else round_double (m * 2 ^ (attempt - 1)))"

text \<open>\<^verbatim>\<open>Math.min(delay, maxDelayMs)\<close>; \<^verbatim>\<open>NaN\<close> propagates.\<close>

definition js_min :: "jsdouble \<Rightarrow> int \<Rightarrow> jsdouble" where
  "js_min delay maxDelay =
     (case delay of
        Whole d \<Rightarrow> Whole (min d maxDelay)
      | Halves n \<Rightarrow> if n < 2 * maxDelay then Halves n else Whole maxDelay
      | NotANumber \<Rightarrow> NotANumber
      | PlusInfinity \<Rightarrow> Whole maxDelay
      | MinusInfinity \<Rightarrow> MinusInfinity)"

text \<open>
  \<^verbatim>\<open>calculateRetryDelay\<close>. The attempt is the loop counter of \<^verbatim>\<open>uploadWithRetry\<close>, a
  natural number.
\<close>

definition calculateRetryDelay :: "nat \<Rightarrow> RetryConfig \<Rightarrow> jsdouble" where
  "calculateRetryDelay attempt config =
     (let delay = (if backoff config = Linear then delay_linear (minDelayMs config) attempt
                   else delay_exponential (minDelayMs config) attempt)
      in js_min delay (maxDelayMs config))"

text \<open>
  The retryability predicate as the specification words it, with the policy's reinit flag
  as a parameter; it is compared with \<^const>\<open>isRetryableError\<close> below.
\<close>

definition retryable_as_specified :: "bool \<Rightarrow> UploadError \<Rightarrow> bool" where
  "retryable_as_specified reinitFlag e =
     (case code e of
        NETWORK \<Rightarrow> True
      | TIMEOUT \<Rightarrow> True
      | SERVER \<Rightarrow> True
      | EXPIRED \<Rightarrow> reinitFlag
      | BAD_REQUEST \<Rightarrow> False
      | ABORTED \<Rightarrow> False)"

section \<open>Files and upload descriptors (types.ts)\<close>

record File =
  fname :: string
  fsize :: nat
  ftype :: string

datatype PresignMode = ModePut | ModePost

text \<open>
  \<^verbatim>\<open>PresignConfig\<close> as it exists at run time. The interfaces \<^verbatim>\<open>PresignPut\<close> and
  \<^verbatim>\<open>PresignPost\<close> require \<^verbatim>\<open>uploadUrl\<close> and \<^verbatim>\<open>key\<close> (and \<^verbatim>\<open>fields\<close> for
  POST), but the object comes from the caller's \<^verbatim>\<open>mapResponse\<close>, so each property can
  be absent (\<open>None\<close>). \<open>headers\<close> and \<open>policyFields\<close> (the property
  \<^verbatim>\<open>fields\<close>) are listed in the order in which \<^verbatim>\<open>Object.entries\<close> enumerates
  them.
\<close>

record PresignConfig =
  mode :: PresignMode
  uploadUrl :: "string option"
  key :: "string option"
  headers :: "(string \<times> string) list option"
  policyFields :: "(string \<times> string) list option"
  postFileFieldName :: "string option"
  expiresAt :: "int option"

text \<open>The properties the declared variant requires (types.ts).\<close>

definition structurally_valid :: "PresignConfig \<Rightarrow> bool" where
  "structurally_valid d =
     (uploadUrl d \<noteq> None \<and> key d \<noteq> None \<and>
      (case mode d of ModePut \<Rightarrow> True | ModePost \<Rightarrow> policyFields d \<noteq> None))"

record UploadResult =
  res_key :: "string option"
  res_location :: "string option"
  res_etag :: "string option"
  res_mode :: PresignMode

section \<open>HTTP responses\<close>

text \<open>
  A response as the library reads it: status line, headers, and the outcomes of
  \<^verbatim>\<open>response.json()\<close> and \<^verbatim>\<open>response.text()\<close>, each either the body or the value
  thrown. A parsed body is kept as its text.
\<close>

record HttpResponse =
  resp_status :: int
  resp_statusText :: string
  resp_headers :: "(string \<times> string) list"
  resp_json :: "thrown + string"
  resp_text :: "thrown + string"

definition resp_ok :: "HttpResponse \<Rightarrow> bool" where
  "resp_ok r = (200 \<le> resp_status r \<and> resp_status r \<le> 299)"

text \<open>The nested \<^verbatim>\<open>try\<close> that reads the body of a failed response.\<close>

definition read_error_body :: "HttpResponse \<Rightarrow> string option" where
  "read_error_body r =
     (case resp_json r of
        Inr b \<Rightarrow> Some b
      | Inl _ \<Rightarrow> (case resp_text r of Inr t \<Rightarrow> Some t | Inl _ \<Rightarrow> None))"

section \<open>Descriptor initializer (initializePresign)\<close>

text \<open>
  The network side of one call of \<^verbatim>\<open>initializePresign\<close>: \<open>io_prepare\<close> is a value
  thrown while the request is prepared (by \<^verbatim>\<open>init.headers()\<close>, \<^verbatim>\<open>init.buildPayload\<close>
  or \<^verbatim>\<open>JSON.stringify\<close>), \<open>io_fetch\<close> is what \<^verbatim>\<open>fetch\<close> does: it throws (also when
  the signal aborts it) or answers. The request that is sent does not enter the handling
  of the answer. The caller's \<^verbatim>\<open>mapResponse\<close> returns a descriptor object or throws.
\<close>

record InitIO =
  io_prepare :: "thrown option"
  io_fetch :: "thrown + HttpResponse"

definition initializePresign_try ::
  "(string \<Rightarrow> thrown + PresignConfig) \<Rightarrow> InitIO \<Rightarrow> thrown + PresignConfig" where
  "initializePresign_try mapResponse io =
     (case io_prepare io of
        Some t \<Rightarrow> Inl t
      | None \<Rightarrow>
         (case io_fetch io of
            Inl t \<Rightarrow> Inl t
          | Inr response \<Rightarrow>
             if \<not> resp_ok response then
               Inl (ThrownUploadError
                 (createErrorFromResponse PhaseInit (resp_status response)
                    (resp_statusText response) (read_error_body response)))
             else
               (case resp_json response of
                  Inl t \<Rightarrow> Inl t
                | Inr responseData \<Rightarrow> mapResponse responseData)))"

definition initializePresign ::
  "(string \<Rightarrow> thrown + PresignConfig) \<Rightarrow> InitIO \<Rightarrow> UploadError + PresignConfig" where
  "initializePresign mapResponse io =
     (case initializePresign_try mapResponse io of
        Inr d \<Rightarrow> Inr d
      | Inl (ThrownUploadError e) \<Rightarrow> Inl e
      | Inl err \<Rightarrow> Inl (normalizeError err PhaseInit ''Failed to initialize presigned URL''))"

section \<open>Retry and reinit orchestrator (uploadWithRetry)\<close>

text \<open>
  The caller's partial retry configuration and its merge over the defaults,
  \<^verbatim>\<open>{ ...DEFAULT_RETRY_CONFIG, ...config.retry }\<close>.
\<close>

record PartialRetryConfig =
  opt_retries :: "int option"
  opt_backoff :: "Backoff option"
  opt_minDelayMs :: "int option"
  opt_maxDelayMs :: "int option"
  opt_reinitOnAuthError :: "bool option"

definition merge_retry :: "PartialRetryConfig option \<Rightarrow> RetryConfig" where
  "merge_retry r =
     (case r of
        None \<Rightarrow> DEFAULT_RETRY_CONFIG
      | Some p \<Rightarrow>
         \<lparr>retries = (case opt_retries p of None \<Rightarrow> retries DEFAULT_RETRY_CONFIG | Some v \<Rightarrow> v),
          backoff = (case opt_backoff p of None \<Rightarrow> backoff DEFAULT_RETRY_CONFIG | Some v \<Rightarrow> v),
          minDelayMs =
            (case opt_minDelayMs p of None \<Rightarrow> minDelayMs DEFAULT_RETRY_CONFIG | Some v \<Rightarrow> v),
          maxDelayMs =
            (case opt_maxDelayMs p of None \<Rightarrow> maxDelayMs DEFAULT_RETRY_CONFIG | Some v \<Rightarrow> v),
          reinitOnAuthError =
            (case opt_reinitOnAuthError p of
               None \<Rightarrow> reinitOnAuthError DEFAULT_RETRY_CONFIG | Some v \<Rightarrow> v)\<rparr>)"

record UploaderConfig =
  cfg_mapResponse :: "string \<Rightarrow> thrown + PresignConfig"
  cfg_retry :: "PartialRetryConfig option"

text \<open>
  The world around one orchestrated call. \<^verbatim>\<open>upload\<close> always passes a signal, the one
  of its own \<^verbatim>\<open>AbortController\<close>, which \<^verbatim>\<open>cancel()\<close> and the caller's signal abort.
  The signal latches: it fires at
  tick \<open>abort_at\<close> (never, for \<open>None\<close>) and is seen aborted from then on. Attempt \<open>a\<close>
  reads it at tick \<open>2 * a\<close> (top of the \<^verbatim>\<open>try\<close>) and at tick \<open>2 * a + 1\<close> (in the
  \<^verbatim>\<open>catch\<close>). \<open>init_io n\<close> is the network side of the \<open>n\<close>-th initializer call and
  \<open>transport_upload n d\<close> the outcome of the \<open>n\<close>-th \<^verbatim>\<open>transport.upload\<close> call, made
  with descriptor \<open>d\<close>; the transport is the interface \<^verbatim>\<open>Transport\<close>, so its promise can
  reject with any value.
\<close>

record Env =
  abort_at :: "nat option"
  init_io :: "nat \<Rightarrow> InitIO"
  transport_upload :: "nat \<Rightarrow> PresignConfig \<Rightarrow> thrown + UploadResult"

definition signal_aborted :: "Env \<Rightarrow> nat \<Rightarrow> bool" where
  "signal_aborted env t = (case abort_at env of None \<Rightarrow> False | Some k \<Rightarrow> k \<le> t)"

text \<open>What the call does to the outside, in order.\<close>

datatype event = InitCalled | TransportCalled PresignConfig | Slept jsdouble

text \<open>
  The variables of \<^verbatim>\<open>uploadWithRetry\<close> (\<^verbatim>\<open>presignConfig\<close>, \<^verbatim>\<open>lastError\<close>), with the
  numbers of initializer and transport calls made so far and the log of events.
\<close>

record AttemptState =
  presignConfig :: "PresignConfig option"
  lastError :: "UploadError option"
  initCalls :: nat
  transportCalls :: nat
  events :: "event list"

definition initial_state :: AttemptState where
  "initial_state =
     \<lparr>presignConfig = None, lastError = None, initCalls = 0, transportCalls = 0, events = []\<rparr>"

definition needs_init :: "RetryConfig \<Rightarrow> AttemptState \<Rightarrow> bool" where
  "needs_init rc st =
     (presignConfig st = None \<or>
      (case lastError st of
         None \<Rightarrow> False
       | Some e \<Rightarrow> requiresReinit e \<and> reinitOnAuthError rc))"

text \<open>
  The \<^verbatim>\<open>try\<close> block of one attempt: the value returned, or the value thrown into the
  \<^verbatim>\<open>catch\<close>, with the state as the block leaves it. At the transport call a
  descriptor is cached, since \<^const>\<open>needs_init\<close> holds whenever none is; the branch for
  a missing one is there for totality only.
\<close>

definition attempt_try ::
  "UploaderConfig \<Rightarrow> Env \<Rightarrow> nat \<Rightarrow> AttemptState \<Rightarrow> (thrown + UploadResult) \<times> AttemptState" where
  "attempt_try config env attempt st =
     (if signal_aborted env (2 * attempt) then
        (Inl (ThrownUploadError
               (normalizeError (ThrownError ''Error'' ''Aborted'') PhaseUpload
                  default_normalize_message)), st)
      else
        (let initialised =
               (if needs_init (merge_retry (cfg_retry config)) st then
                  (let st1 = st\<lparr>initCalls := initCalls st + 1, events := events st @ [InitCalled]\<rparr>
                   in case initializePresign (cfg_mapResponse config) (init_io env (initCalls st)) of
                        Inl e \<Rightarrow> (Some (ThrownUploadError e), st1)
                      | Inr d \<Rightarrow> (None, st1\<lparr>presignConfig := Some d\<rparr>))
                else (None, st))
         in case initialised of
              (Some t, st1) \<Rightarrow> (Inl t, st1)
            | (None, st1) \<Rightarrow>
               (case presignConfig st1 of
                  None \<Rightarrow> (Inl (ThrownOther ''unreachable''), st1)
                | Some d \<Rightarrow>
                   (transport_upload env (transportCalls st1) d,
                    st1\<lparr>transportCalls := transportCalls st1 + 1,
                        events := events st1 @ [TransportCalled d]\<rparr>))))"

datatype step = Returned UploadResult | Rejected UploadError | Continue

text \<open>One iteration of the \<^verbatim>\<open>for\<close> loop: the \<^verbatim>\<open>try\<close> block, then the \<^verbatim>\<open>catch\<close>.\<close>

definition attempt_body ::
  "UploaderConfig \<Rightarrow> Env \<Rightarrow> nat \<Rightarrow> AttemptState \<Rightarrow> step \<times> AttemptState" where
  "attempt_body config env attempt st =
     (let retryConfig = merge_retry (cfg_retry config) in
      case attempt_try config env attempt st of
        (Inr r, st1) \<Rightarrow> (Returned r, st1)
      | (Inl err, st1) \<Rightarrow>
         (let uploadError =
                normalizeError err
                  (if presignConfig st1 \<noteq> None then PhaseUpload else PhaseInit)
                  default_normalize_message;
              st2 = st1\<lparr>lastError := Some uploadError\<rparr>
          in if int attempt \<ge> retries retryConfig + 1 then (Rejected uploadError, st2)
             else if \<not> isRetryableError uploadError then (Rejected uploadError, st2)
             else if signal_aborted env (2 * attempt + 1) then (Rejected uploadError, st2)
             else (Continue,
                   st2\<lparr>events := events st2 @ [Slept (calculateRetryDelay attempt retryConfig)]\<rparr>)))"

text \<open>
  The loop, from attempt \<open>attempt\<close> on. Leaving the loop by its condition reaches the final
  \<^verbatim>\<open>throw lastError || new Error(...)\<close>, which can throw a plain \<^verbatim>\<open>Error\<close>.
\<close>

function uploadLoop ::
  "UploaderConfig \<Rightarrow> Env \<Rightarrow> nat \<Rightarrow> AttemptState \<Rightarrow> (thrown + UploadResult) \<times> AttemptState" where
  "uploadLoop config env attempt st =
     (if int attempt \<le> retries (merge_retry (cfg_retry config)) + 1 then
        (case attempt_body config env attempt st of
           (Returned r, st1) \<Rightarrow> (Inr r, st1)
         | (Rejected e, st1) \<Rightarrow> (Inl (ThrownUploadError e), st1)
         | (Continue, st1) \<Rightarrow> uploadLoop config env (attempt + 1) st1)
      else
        (case lastError st of
           Some e \<Rightarrow> (Inl (ThrownUploadError e), st)
         | None \<Rightarrow> (Inl (ThrownError ''Error'' ''Upload failed for unknown reason''), st)))"
  by pat_completeness auto
termination
  by (relation "measure (\<lambda>(config, env, attempt, st).
        nat (retries (merge_retry (cfg_retry config)) + 2 - int attempt))") auto

definition uploadWithRetry ::
  "UploaderConfig \<Rightarrow> Env \<Rightarrow> (thrown + UploadResult) \<times> AttemptState" where
  "uploadWithRetry config env = uploadLoop config env 1 initial_state"

section \<open>Progress values and the throttler (core/xhr.ts)\<close>

text \<open>
  A JavaScript number that \<^verbatim>\<open>Math.round\<close> can return here: an integer, \<^verbatim>\<open>NaN\<close>
  (from \<^verbatim>\<open>0 / 0\<close>) or \<^verbatim>\<open>Infinity\<close> (from a positive number over 0). Division by
  zero does not throw in JavaScript.
\<close>

datatype jsnum = Num int | NaN | PosInfinity

text \<open>
  \<^verbatim>\<open>Math.round(x)\<close> for the positive double \<open>x = m * 2 ^ e\<close>: the nearest integer, a
  half upwards.
\<close>

definition math_round :: "int \<Rightarrow> int \<Rightarrow> int" where
  "math_round m e =
     (if e \<ge> 0 then m * 2 ^ nat e
      else (2 * m + 2 ^ nat (- e)) div 2 ^ (nat (- e) + 1))"

text \<open>
  \<^verbatim>\<open>Math.round((a / b) * 100)\<close> for byte counts \<open>a\<close> and \<open>b\<close> (below \<open>2 ^ 53\<close>, so
  that they are doubles): the quotient is rounded to a double, its product with 100 is
  rounded to a double, and that double is rounded to an integer. So 145 of 1000 bytes are
  14 percent, since \<^verbatim>\<open>0.145 * 100\<close> is \<^verbatim>\<open>14.499999999999998\<close>.
\<close>

definition js_percent :: "int \<Rightarrow> int \<Rightarrow> jsnum" where
  "js_percent a b =
     (if b = 0 then (if a = 0 then NaN else PosInfinity)
      else if a = 0 then Num 0
      else
        (case round_ratio a b of
           (m1, e1) \<Rightarrow>
             (case round_ratio (100 * m1) 1 of
                (m2, e2) \<Rightarrow> Num (math_round m2 (e1 + e2)))))"

definition round_percent :: "nat \<Rightarrow> nat \<Rightarrow> jsnum" where
  "round_percent a b = js_percent (int a) (int b)"

record UploadProgress =
  bytesSent :: nat
  totalBytes :: nat
  percent :: jsnum

text \<open>A \<^verbatim>\<open>ProgressEvent\<close>; \<open>total_ev\<close> is its property \<^verbatim>\<open>total\<close>.\<close>

record ProgressEvent =
  lengthComputable :: bool
  loaded :: nat
  total_ev :: nat

text \<open>
  \<^verbatim>\<open>ProgressThrottler\<close>. The clock \<^verbatim>\<open>Date.now()\<close> is an argument: the reading, in
  milliseconds, taken by the call.
\<close>

record ProgressThrottler =
  lastEmit :: int
  intervalMs :: int

definition new_ProgressThrottler :: "int option \<Rightarrow> ProgressThrottler" where
  "new_ProgressThrottler i =
     \<lparr>lastEmit = 0, intervalMs = (case i of None \<Rightarrow> 120 | Some v \<Rightarrow> v)\<rparr>"

definition shouldEmit :: "int \<Rightarrow> ProgressThrottler \<Rightarrow> bool \<times> ProgressThrottler" where
  "shouldEmit now th =
     (if now - lastEmit th \<ge> intervalMs th then (True, th\<lparr>lastEmit := now\<rparr>)
      else (False, th))"

definition forceEmit :: "int \<Rightarrow> ProgressThrottler \<Rightarrow> ProgressThrottler" where
  "forceEmit now th = th\<lparr>lastEmit := now\<rparr>"

text \<open>A run of \<^verbatim>\<open>shouldEmit\<close> calls at the given clock readings, with their results.\<close>

fun shouldEmit_run :: "int list \<Rightarrow> ProgressThrottler \<Rightarrow> bool list" where
  "shouldEmit_run [] th = []"
| "shouldEmit_run (now # ts) th =
     (case shouldEmit now th of (b, th') \<Rightarrow> b # shouldEmit_run ts th')"

section \<open>Streaming transport (XHRTransport)\<close>

text \<open>
  The listener for \<^verbatim>\<open>progress\<close> events of \<^verbatim>\<open>xhr.upload\<close>: the value handed to
  \<^verbatim>\<open>onProgress\<close>, if any, and the throttler afterwards. \<^verbatim>\<open>&&\<close> and \<^verbatim>\<open>||\<close> evaluate
  from the left, so \<^verbatim>\<open>shouldEmit\<close> runs exactly when the length is computable.
\<close>

definition xhr_on_progress ::
  "int \<Rightarrow> ProgressEvent \<Rightarrow> ProgressThrottler \<Rightarrow> UploadProgress option \<times> ProgressThrottler" where
  "xhr_on_progress now ev th =
     (if lengthComputable ev then
        (case shouldEmit now th of
           (emit, th') \<Rightarrow>
             if emit \<or> loaded ev = total_ev ev then
               (Some \<lparr>bytesSent = loaded ev, totalBytes = total_ev ev,
                      percent = round_percent (loaded ev) (total_ev ev)\<rparr>, th')
             else (None, th'))
      else (None, th))"

fun xhr_listen :: "(int \<times> ProgressEvent) list \<Rightarrow> ProgressThrottler \<Rightarrow> UploadProgress list" where
  "xhr_listen [] th = []"
| "xhr_listen ((now, ev) # rest) th =
     (case xhr_on_progress now ev th of
        (None, th') \<Rightarrow> xhr_listen rest th'
      | (Some p, th') \<Rightarrow> p # xhr_listen rest th')"

text \<open>
  The progress values \<^verbatim>\<open>XHRTransport.upload\<close> hands to the callback for a sequence of
  progress events, each with the clock reading at its arrival. The listener is registered
  only when a callback was given.
\<close>

definition xhr_progress_calls ::
  "bool \<Rightarrow> int option \<Rightarrow> (int \<times> ProgressEvent) list \<Rightarrow> UploadProgress list" where
  "xhr_progress_calls hasOnProgress progressIntervalMs evs =
     (if hasOnProgress then xhr_listen evs (new_ProgressThrottler progressIntervalMs) else [])"

datatype HttpMethod = PUT | POST

datatype FormValue = TextValue string | FileValue File

datatype RequestBody = FileBody File | FormDataBody "(string \<times> FormValue) list"

record UploadRequest =
  req_method :: HttpMethod
  req_url :: "string option"
  req_headers :: "(string \<times> string) list"
  req_body :: RequestBody

text \<open>\<^verbatim>\<open>config.postFileFieldName || 'file'\<close>: the empty string is falsy.\<close>

definition fileFieldName :: "PresignConfig \<Rightarrow> string" where
  "fileFieldName config =
     (case postFileFieldName config of
        None \<Rightarrow> ''file''
      | Some n \<Rightarrow> if n = [] then ''file'' else n)"

definition entries_TypeError :: thrown where
  "entries_TypeError = ThrownError ''TypeError'' ''Cannot convert undefined or null to object''"

text \<open>
  The request \<^verbatim>\<open>XHRTransport.upload\<close> opens and sends. \<^verbatim>\<open>Object.entries\<close> of a
  missing \<^verbatim>\<open>fields\<close> throws a \<^verbatim>\<open>TypeError\<close>.
\<close>

definition xhr_request :: "PresignConfig \<Rightarrow> File \<Rightarrow> thrown + UploadRequest" where
  "xhr_request config file =
     (if mode config = ModePut then
        Inr \<lparr>req_method = PUT, req_url = uploadUrl config,
             req_headers = (case headers config of None \<Rightarrow> [] | Some hs \<Rightarrow> hs),
             req_body = FileBody file\<rparr>
      else
        (case policyFields config of
           None \<Rightarrow> Inl entries_TypeError
         | Some fs \<Rightarrow>
            (let formData = fold (\<lambda>(k, v) fd. fd @ [(k, TextValue v)]) fs [];
                 formData' = formData @ [(fileFieldName config, FileValue file)]
             in Inr \<lparr>req_method = POST, req_url = uploadUrl config, req_headers = [],
                     req_body = FormDataBody formData'\<rparr>)))"

section \<open>Plain transport (FetchTransport)\<close>

definition fetch_request :: "PresignConfig \<Rightarrow> File \<Rightarrow> thrown + UploadRequest" where
  "fetch_request config file =
     (if mode config = ModePut then
        Inr \<lparr>req_method = PUT, req_url = uploadUrl config,
             req_headers = (case headers config of None \<Rightarrow> [] | Some hs \<Rightarrow> hs),
             req_body = FileBody file\<rparr>
      else
        (case policyFields config of
           None \<Rightarrow> Inl entries_TypeError
         | Some fs \<Rightarrow>
            (let formData = fold (\<lambda>(k, v) fd. fd @ [(k, TextValue v)]) fs [];
                 formData' = formData @ [(fileFieldName config, FileValue file)]
             in Inr \<lparr>req_method = POST, req_url = uploadUrl config, req_headers = [],
                     req_body = FormDataBody formData'\<rparr>)))"

text \<open>
  \<^verbatim>\<open>response.headers.get(name)?.replace(/"/g, '') || undefined\<close> and
  \<^verbatim>\<open>response.headers.get(name) || undefined\<close>; header names are looked up as given.
\<close>

definition header_unquoted :: "HttpResponse \<Rightarrow> string \<Rightarrow> string option" where
  "header_unquoted r name =
     (case map_of (resp_headers r) name of
        None \<Rightarrow> None
      | Some v \<Rightarrow> (let v' = filter (\<lambda>c. c \<noteq> CHR 0x22) v in if v' = [] then None else Some v'))"

definition header_value :: "HttpResponse \<Rightarrow> string \<Rightarrow> string option" where
  "header_value r name =
     (case map_of (resp_headers r) name of
        None \<Rightarrow> None
      | Some v \<Rightarrow> if v = [] then None else Some v)"

definition FetchTransport_try ::
  "PresignConfig \<Rightarrow> File \<Rightarrow> (UploadRequest \<Rightarrow> thrown + HttpResponse) \<Rightarrow> thrown + UploadResult" where
  "FetchTransport_try config file fetch =
     (case fetch_request config file of
        Inl t \<Rightarrow> Inl t
      | Inr req \<Rightarrow>
         (case fetch req of
            Inl t \<Rightarrow> Inl t
          | Inr response \<Rightarrow>
             if \<not> resp_ok response then
               Inl (ThrownUploadError
                 (createErrorFromResponse PhaseUpload (resp_status response)
                    (resp_statusText response) (read_error_body response)))
             else
               Inr \<lparr>res_key = key config,
                    res_location = header_value response ''Location'',
                    res_etag = header_unquoted response ''ETag'',
                    res_mode = mode config\<rparr>))"

text \<open>
  \<^verbatim>\<open>FetchTransport.upload\<close>: the settlement of the promise, and the list of progress
  values handed to \<^verbatim>\<open>options.onProgress\<close> during the call. The parameter \<open>onProgress\<close>
  says whether the caller supplied the callback; \<open>fetch\<close> is what the network answers to
  the request (a thrown value when the signal aborts it).
\<close>

definition FetchTransport_upload ::
  "PresignConfig \<Rightarrow> File \<Rightarrow> bool \<Rightarrow> (UploadRequest \<Rightarrow> thrown + HttpResponse) \<Rightarrow>
     (UploadError + UploadResult) \<times> UploadProgress list" where
  "FetchTransport_upload config file onProgress fetch =
     (case FetchTransport_try config file fetch of
        Inr r \<Rightarrow> (Inr r, [])
      | Inl (ThrownError nm msg) \<Rightarrow>
          if nm = ''AbortError'' then (Inl (createAbortError PhaseUpload (Some msg)), [])
          else (Inl (normalizeError (ThrownError nm msg) PhaseUpload ''Upload request failed''), [])
      | Inl err \<Rightarrow> (Inl (normalizeError err PhaseUpload ''Upload request failed''), []))"

section \<open>Batch uploads: aggregated progress and the concurrency controller\<close>

text \<open>
  \<^verbatim>\<open>updateOverallProgress\<close>: the value handed to \<^verbatim>\<open>onOverallProgress\<close>, if that
  callback was given. The \<^verbatim>\<open>forEach\<close> over the files accumulates the two sums
  \<^verbatim>\<open>totalBytes\<close> and \<^verbatim>\<open>totalSent\<close>.
\<close>

definition overall_sums :: "File list \<Rightarrow> (nat \<rightharpoonup> UploadProgress) \<Rightarrow> nat \<times> nat" where
  "overall_sums files progressMap =
     fold (\<lambda>(index, file) (sumBytes, sumSent).
             (sumBytes + fsize file,
              (case progressMap index of
                 None \<Rightarrow> sumSent
               | Some progress \<Rightarrow> sumSent + bytesSent progress)))
          (zip [0 ..< length files] files) (0, 0)"

definition updateOverallProgress ::
  "bool \<Rightarrow> File list \<Rightarrow> (nat \<rightharpoonup> UploadProgress) \<Rightarrow> UploadProgress option" where
  "updateOverallProgress hasOnOverallProgress files progressMap =
     (if \<not> hasOnOverallProgress then None
      else
        (case overall_sums files progressMap of
           (sumBytes, sumSent) \<Rightarrow>
             Some \<lparr>bytesSent = sumSent, totalBytes = sumBytes,
                   percent = (if sumBytes > 0 then round_percent sumSent sumBytes
                              else Num 0)\<rparr>))"

text \<open>
  The per-file callback that \<^verbatim>\<open>uploadMany\<close> installs when \<^verbatim>\<open>onEachProgress\<close> is given:
  it stores the progress of file \<open>index\<close> and recomputes the overall progress.
\<close>

definition on_each_progress ::
  "bool \<Rightarrow> File list \<Rightarrow> nat \<Rightarrow> UploadProgress \<Rightarrow> (nat \<rightharpoonup> UploadProgress) \<Rightarrow>
     (nat \<rightharpoonup> UploadProgress) \<times> UploadProgress option" where
  "on_each_progress hasOnOverallProgress files index progress progressMap =
     (let progressMap' = progressMap(index \<mapsto> progress)
      in (progressMap', updateOverallProgress hasOnOverallProgress files progressMap'))"

text \<open>
  \<^verbatim>\<open>ConcurrencyController\<close>. Tasks are named by numbers (for \<^verbatim>\<open>uploadMany\<close>, the index
  of the file). \<open>running\<close>, \<open>queue\<close> and \<open>maxConcurrency\<close> are the fields of the class;
  \<open>inFlight\<close> and \<open>started\<close> record, for the statements below, which tasks are between
  their start and their \<^verbatim>\<open>finally\<close> block, and the order in which tasks were started.
\<close>

record Controller =
  running :: nat
  queue :: "nat list"
  maxConcurrency :: nat
  inFlight :: "nat list"
  started :: "nat list"

definition new_Controller :: "nat \<Rightarrow> Controller" where
  "new_Controller k = \<lparr>running = 0, queue = [], maxConcurrency = k, inFlight = [], started = []\<rparr>"

text \<open>The synchronous start of \<^verbatim>\<open>executeTask\<close>: \<^verbatim>\<open>this.running++\<close>, then the task is called.\<close>

definition executeTask :: "nat \<Rightarrow> Controller \<Rightarrow> Controller" where
  "executeTask t c =
     c\<lparr>running := running c + 1, inFlight := inFlight c @ [t], started := started c @ [t]\<rparr>"

definition execute :: "nat \<Rightarrow> Controller \<Rightarrow> Controller" where
  "execute t c =
     (if running c < maxConcurrency c then executeTask t c
      else c\<lparr>queue := queue c @ [t]\<rparr>)"

definition processQueue :: "Controller \<Rightarrow> Controller" where
  "processQueue c =
     (if length (queue c) > 0 \<and> running c < maxConcurrency c then
        (case queue c of
           [] \<Rightarrow> c
         | nextTask # rest \<Rightarrow> executeTask nextTask (c\<lparr>queue := rest\<rparr>))
      else c)"

text \<open>
  The \<^verbatim>\<open>finally\<close> block of \<^verbatim>\<open>executeTask\<close>, run when task \<open>t\<close> has settled. Only a task
  in flight can settle; for any other the event does not exist (\<open>None\<close>).
\<close>

definition task_settled :: "nat \<Rightarrow> Controller \<Rightarrow> Controller option" where
  "task_settled t c =
     (if t \<in> set (inFlight c) then
        Some (processQueue (c\<lparr>running := running c - 1, inFlight := remove1 t (inFlight c)\<rparr>))
      else None)"

datatype sched_event = Execute nat | Settled nat

fun sched_step :: "sched_event \<Rightarrow> Controller \<Rightarrow> Controller option" where
  "sched_step (Execute t) c = Some (execute t c)"
| "sched_step (Settled t) c = task_settled t c"

text \<open>The state a schedule of events leads to, if every event of it can happen.\<close>

fun sched_run :: "sched_event list \<Rightarrow> Controller \<Rightarrow> Controller option" where
  "sched_run [] c = Some c"
| "sched_run (e # es) c =
     (case sched_step e c of
        None \<Rightarrow> None
      | Some c' \<Rightarrow> sched_run es c')"

text \<open>The tasks submitted by a schedule, in the order of their \<^verbatim>\<open>execute\<close> calls.\<close>

fun submitted :: "sched_event list \<Rightarrow> nat list" where
  "submitted [] = []"
| "submitted (Execute t # es) = t # submitted es"
| "submitted (Settled t # es) = submitted es"

text \<open>
  \<^verbatim>\<open>uploadMany\<close> calls \<^verbatim>\<open>controller.execute\<close> for the files in input order, within one
  synchronous \<^verbatim>\<open>files.map\<close>; the tasks then settle in some order. Every instant of a
  batch is the end of such a schedule: of \<open>uploadMany_schedule m []\<close> while the first
  \<open>m\<close> files have been submitted, of \<open>uploadMany_schedule n settles\<close> afterwards.
\<close>

definition uploadMany_schedule :: "nat \<Rightarrow> nat list \<Rightarrow> sched_event list" where
  "uploadMany_schedule n settles = map Execute [0 ..< n] @ map Settled settles"

text \<open>
  The invariant of the controller: after the tasks \<open>subm\<close> have been submitted and
  \<open>settled\<close> tasks have settled, the tasks started and the tasks queued are, in this
  order, the tasks submitted; tasks wait only while every slot is taken.
\<close>

definition sched_inv :: "nat \<Rightarrow> nat list \<Rightarrow> nat \<Rightarrow> Controller \<Rightarrow> bool" where
  "sched_inv k subm settled c =
     (maxConcurrency c = k \<and> running c \<le> k \<and> length (inFlight c) = running c \<and>
      started c @ queue c = subm \<and> (queue c = [] \<or> running c = k) \<and>
      length (started c) = running c + settled)"

section \<open>Example descriptors, configurations and worlds\<close>

text \<open>Concrete inputs, used below to run the definitions.\<close>

definition put_descriptor :: PresignConfig where
  "put_descriptor =
     \<lparr>mode = ModePut, uploadUrl = Some ''https://test-bucket.s3.amazonaws.com/test-key'',
      key = Some ''test-key'', headers = None, policyFields = None,
      postFileFieldName = None, expiresAt = None\<rparr>"

text \<open>The object of the test "should validate required fields in mapped response".\<close>

definition incomplete_descriptor :: PresignConfig where
  "incomplete_descriptor =
     \<lparr>mode = ModePut, uploadUrl = None, key = None, headers = None, policyFields = None,
      postFileFieldName = None, expiresAt = None\<rparr>"

definition response_with :: "int \<Rightarrow> string \<Rightarrow> HttpResponse" where
  "response_with st txt =
     \<lparr>resp_status = st, resp_statusText = txt, resp_headers = [],
      resp_json = Inr ''{}'', resp_text = Inr ''{}''\<rparr>"

definition io_answering :: "int \<Rightarrow> string \<Rightarrow> InitIO" where
  "io_answering st txt = \<lparr>io_prepare = None, io_fetch = Inr (response_with st txt)\<rparr>"

definition upload_ok :: UploadResult where
  "upload_ok =
     \<lparr>res_key = Some ''test-key'', res_location = None, res_etag = None, res_mode = ModePut\<rparr>"

definition expired_403 :: UploadError where
  "expired_403 = createErrorFromResponse PhaseUpload 403 ''Forbidden'' None"

definition map_incomplete :: "string \<Rightarrow> thrown + PresignConfig" where
  "map_incomplete body = Inr incomplete_descriptor"

definition map_throwing :: "string \<Rightarrow> thrown + PresignConfig" where
  "map_throwing body = Inl (ThrownError ''Error'' ''Mapping failed'')"

definition config_with :: "PartialRetryConfig option \<Rightarrow> PresignConfig \<Rightarrow> UploaderConfig" where
  "config_with r d = \<lparr>cfg_mapResponse = (\<lambda>body. Inr d), cfg_retry = r\<rparr>"

definition retry_twice :: PartialRetryConfig where
  "retry_twice =
     \<lparr>opt_retries = Some 2, opt_backoff = None, opt_minDelayMs = None, opt_maxDelayMs = None,
      opt_reinitOnAuthError = None\<rparr>"

definition retry_twice_no_reinit :: PartialRetryConfig where
  "retry_twice_no_reinit =
     \<lparr>opt_retries = Some 2, opt_backoff = None, opt_minDelayMs = None, opt_maxDelayMs = None,
      opt_reinitOnAuthError = Some False\<rparr>"

text \<open>Nothing fails and nobody cancels.\<close>

definition env_fine :: Env where
  "env_fine =
     \<lparr>abort_at = None, init_io = (\<lambda>n. io_answering 200 ''OK''),
      transport_upload = (\<lambda>n d. Inr upload_ok)\<rparr>"

text \<open>The signal is aborted before the call; nothing else would fail.\<close>

definition env_cancelled :: Env where
  "env_cancelled =
     \<lparr>abort_at = Some 0, init_io = (\<lambda>n. io_answering 200 ''OK''),
      transport_upload = (\<lambda>n d. Inr upload_ok)\<rparr>"

text \<open>The init endpoint answers 403 to the first call and 200 afterwards.\<close>

definition env_init_403_once :: Env where
  "env_init_403_once =
     \<lparr>abort_at = None,
      init_io = (\<lambda>n. if n = 0 then io_answering 403 ''Forbidden'' else io_answering 200 ''OK''),
      transport_upload = (\<lambda>n d. Inr upload_ok)\<rparr>"

text \<open>The object store answers 403 to the first transfer and accepts the following ones.\<close>

definition env_upload_403_once :: Env where
  "env_upload_403_once =
     \<lparr>abort_at = None, init_io = (\<lambda>n. io_answering 200 ''OK''),
      transport_upload =
        (\<lambda>n d. if n = 0 then Inl (ThrownUploadError expired_403) else Inr upload_ok)\<rparr>"

text \<open>The states in which the first attempt leaves the call in the last two worlds.\<close>

definition st_init_403 :: AttemptState where
  "st_init_403 =
     \<lparr>presignConfig = None,
      lastError = Some (createErrorFromResponse PhaseInit 403 ''Forbidden'' (Some ''{}'')),
      initCalls = 1, transportCalls = 0, events = [InitCalled, Slept (Whole 500)]\<rparr>"

definition st_upload_403 :: AttemptState where
  "st_upload_403 =
     \<lparr>presignConfig = Some put_descriptor, lastError = Some expired_403,
      initCalls = 1, transportCalls = 1,
      events = [InitCalled, TransportCalled put_descriptor, Slept (Whole 500)]\<rparr>"

text \<open>
  A file of 1024 bytes, and the last progress event of its POST upload: the multipart
  body, of 1500 bytes here, is what \<^verbatim>\<open>xhr.upload\<close> counts.
\<close>

definition small_file :: File where
  "small_file = \<lparr>fname = ''test.png'', fsize = 1024, ftype = ''image/png''\<rparr>"

definition multipart_done :: ProgressEvent where
  "multipart_done = \<lparr>lengthComputable = True, loaded = 1500, total_ev = 1500\<rparr>"

text \<open>
  The last progress event of an upload with a body of zero bytes: its length is not
  computable.
\<close>

definition zero_byte_done :: ProgressEvent where
  "zero_byte_done = \<lparr>lengthComputable = False, loaded = 0, total_ev = 0\<rparr>"


text \<open>A progress event that claims a computable length of zero bytes.\<close>

definition empty_progress :: ProgressEvent where
  "empty_progress = \<lparr>lengthComputable = True, loaded = 0, total_ev = 0\<rparr>"

definition half_way :: ProgressEvent where
  "half_way = \<lparr>lengthComputable = True, loaded = 512, total_ev = 1024\<rparr>"

definition all_sent :: ProgressEvent where
  "all_sent = \<lparr>lengthComputable = True, loaded = 1024, total_ev = 1024\<rparr>"

definition post_descriptor :: PresignConfig where
  "post_descriptor =
     \<lparr>mode = ModePost, uploadUrl = Some ''https://test-bucket.s3.amazonaws.com'',
      key = Some ''test-key-post'', headers = None,
      policyFields = Some [(''key'', ''test-key-post''), (''Policy'', ''test-policy'')],
      postFileFieldName = Some ''custom_file_field'', expiresAt = None\<rparr>"

section \<open>Retryability (C1)\<close>

text \<open>
  C1, as stated, fails on the code at two inputs. A \<open>SERVER\<close> error without a status (one
  that a caller's \<^verbatim>\<open>mapResponse\<close> throws, say) is not retryable, although the
  specification calls every \<open>SERVER\<close> error retryable. The \<open>EXPIRED\<close> error built from a
  403 answer is retryable for \<^const>\<open>isRetryableError\<close>, which has no access to the policy,
  although the specification makes it non-retryable when the reinit flag is unset.
\<close>

theorem isRetryableError_differs_from_specification:
  "\<not> isRetryableError
       \<lparr>message = ''quota exceeded'', phase = PhaseInit, code = SERVER, status = None,
        detail = None\<rparr> \<and>
   retryable_as_specified True
       \<lparr>message = ''quota exceeded'', phase = PhaseInit, code = SERVER, status = None,
        detail = None\<rparr> \<and>
   isRetryableError (createErrorFromResponse PhaseUpload 403 ''Forbidden'' None) \<and>
   \<not> retryable_as_specified False (createErrorFromResponse PhaseUpload 403 ''Forbidden'' None)"
  by (simp add: isRetryableError_def retryable_as_specified_def createErrorFromResponse_def
      Let_def createExpiredError_def)

text \<open>
  C1, amended. \<open>NETWORK\<close> and \<open>TIMEOUT\<close> errors are always retryable. A \<open>SERVER\<close> error is
  retryable exactly when it carries a status of at least 500, which every \<open>SERVER\<close> error
  built by \<^const>\<open>createErrorFromResponse\<close> does. An \<open>EXPIRED\<close> error is retryable only
  with status 403, and with that status it is retryable when the policy's
  \<open>reinitOnAuthError\<close> flag is set. \<open>BAD_REQUEST\<close> and \<open>ABORTED\<close> errors are never
  retryable.
\<close>

theorem isRetryableError_by_code:
  "(code e = NETWORK \<or> code e = TIMEOUT \<longrightarrow> isRetryableError e) \<and>
   (code e = SERVER \<longrightarrow> isRetryableError e = (\<exists>s. status e = Some s \<and> s \<ge> 500)) \<and>
   (code e = EXPIRED \<longrightarrow>
      (isRetryableError e \<longrightarrow> status e = Some 403) \<and>
      (reinitOnAuthError rc \<and> status e = Some 403 \<longrightarrow> isRetryableError e)) \<and>
   (code e = BAD_REQUEST \<or> code e = ABORTED \<longrightarrow> \<not> isRetryableError e) \<and>
   (code (createErrorFromResponse ph st txt body) = SERVER \<longrightarrow>
      isRetryableError (createErrorFromResponse ph st txt body))"
  by (auto simp: isRetryableError_def createErrorFromResponse_def Let_def createExpiredError_def
      createBadRequestError_def createServerError_def createNetworkError_def
      split: option.splits)

theorem isRetryableError_by_code_witness:
  "isRetryableError (createNetworkError PhaseUpload ''offline'' None) \<and>
   isRetryableError (createTimeoutError PhaseUpload None) \<and>
   isRetryableError (createErrorFromResponse PhaseUpload 503 ''Service Unavailable'' None) \<and>
   \<not> isRetryableError (createServerError PhaseUpload 302 ''Found'' None) \<and>
   reinitOnAuthError DEFAULT_RETRY_CONFIG \<and>
   isRetryableError (createErrorFromResponse PhaseUpload 403 ''Forbidden'' None) \<and>
   \<not> isRetryableError (createErrorFromResponse PhaseUpload 400 ''Bad Request'' None) \<and>
   \<not> isRetryableError (createAbortError PhaseUpload None)"
  using
    isRetryableError_by_code [of "createNetworkError PhaseUpload ''offline'' None"
      DEFAULT_RETRY_CONFIG PhaseUpload 503 "''Service Unavailable''" None]
    isRetryableError_by_code [of "createTimeoutError PhaseUpload None"
      DEFAULT_RETRY_CONFIG PhaseUpload 503 "''Service Unavailable''" None]
    isRetryableError_by_code [of "createServerError PhaseUpload 302 ''Found'' None"
      DEFAULT_RETRY_CONFIG PhaseUpload 503 "''Service Unavailable''" None]
    isRetryableError_by_code [of "createErrorFromResponse PhaseUpload 403 ''Forbidden'' None"
      DEFAULT_RETRY_CONFIG PhaseUpload 503 "''Service Unavailable''" None]
    isRetryableError_by_code [of "createErrorFromResponse PhaseUpload 400 ''Bad Request'' None"
      DEFAULT_RETRY_CONFIG PhaseUpload 503 "''Service Unavailable''" None]
    isRetryableError_by_code [of "createAbortError PhaseUpload None"
      DEFAULT_RETRY_CONFIG PhaseUpload 503 "''Service Unavailable''" None]
  by (simp add: createNetworkError_def createTimeoutError_def createServerError_def
      createAbortError_def createErrorFromResponse_def createExpiredError_def
      createBadRequestError_def Let_def DEFAULT_RETRY_CONFIG_def)

section \<open>Backoff delay (C4)\<close>




section \<open>The orchestrator, step by step\<close>

lemma signal_aborted_mono: "signal_aborted env t \<Longrightarrow> t \<le> t' \<Longrightarrow> signal_aborted env t'"
  by (auto simp: signal_aborted_def split: option.splits)

lemma attempt_try_aborted:
  "signal_aborted env (2 * a) \<Longrightarrow>
   attempt_try config env a st =
     (Inl (ThrownUploadError
        (createNetworkError PhaseUpload ''Aborted'' (Some (DetailError ''Error'' ''Aborted'')))),
      st)"
  by (simp add: attempt_try_def normalizeError_def)

text \<open>
  An attempt that starts with the signal aborted rejects at once, without a call to the
  initializer or the transport. The error is the normalised \<^verbatim>\<open>new Error('Aborted')\<close>:
  its name is not \<^verbatim>\<open>AbortError\<close>, so it is a \<open>NETWORK\<close> error, of phase
  \<^verbatim>\<open>'upload'\<close> whether or not a descriptor is cached.
\<close>

lemma attempt_body_aborted:
  assumes "signal_aborted env (2 * a)"
  shows "attempt_body config env a st =
     (Rejected (createNetworkError PhaseUpload ''Aborted''
                  (Some (DetailError ''Error'' ''Aborted''))),
      st\<lparr>lastError :=
            Some (createNetworkError PhaseUpload ''Aborted''
                    (Some (DetailError ''Error'' ''Aborted'')))\<rparr>)"
proof -
  have "signal_aborted env (2 * a + 1)"
    using assms by (rule signal_aborted_mono) simp
  then show ?thesis
    by (simp add: attempt_body_def attempt_try_aborted [OF assms] Let_def normalizeError_def)
qed

text \<open>So does the whole loop, entered within the attempt budget.\<close>

lemma uploadLoop_aborted:
  assumes "int a \<le> retries (merge_retry (cfg_retry config)) + 1"
      and "signal_aborted env (2 * a)"
  shows "uploadLoop config env a st =
     (Inl (ThrownUploadError
        (createNetworkError PhaseUpload ''Aborted'' (Some (DetailError ''Error'' ''Aborted'')))),
      st\<lparr>lastError :=
            Some (createNetworkError PhaseUpload ''Aborted''
                    (Some (DetailError ''Error'' ''Aborted'')))\<rparr>)"
  by (subst uploadLoop.simps) (simp add: assms attempt_body_aborted del: uploadLoop.simps)

lemma attempt_try_not_aborted:
  assumes "\<not> signal_aborted env (2 * a)"
  shows "attempt_try config env a st =
     (if needs_init (merge_retry (cfg_retry config)) st then
        (case initializePresign (cfg_mapResponse config) (init_io env (initCalls st)) of
           Inl e \<Rightarrow>
             (Inl (ThrownUploadError e),
              st\<lparr>initCalls := initCalls st + 1, events := events st @ [InitCalled]\<rparr>)
         | Inr d \<Rightarrow>
             (transport_upload env (transportCalls st) d,
              st\<lparr>initCalls := initCalls st + 1, presignConfig := Some d,
                 transportCalls := transportCalls st + 1,
                 events := events st @ [InitCalled, TransportCalled d]\<rparr>))
      else
        (case presignConfig st of
           None \<Rightarrow> (Inl (ThrownOther ''unreachable''), st)
         | Some d \<Rightarrow>
             (transport_upload env (transportCalls st) d,
              st\<lparr>transportCalls := transportCalls st + 1,
                 events := events st @ [TransportCalled d]\<rparr>)))"
  using assms by (simp add: attempt_try_def Let_def split: sum.splits option.splits)

text \<open>The loop goes on only after a retryable failure, before the last attempt.\<close>

lemma attempt_body_Continue:
  assumes "attempt_body config env a st = (Continue, st1)"
  shows "\<exists>e. lastError st1 = Some e \<and> isRetryableError e \<and>
             int a < retries (merge_retry (cfg_retry config)) + 1 \<and>
             \<not> signal_aborted env (2 * a + 1)"
  using assms
  by (auto simp: attempt_body_def Let_def split: prod.splits sum.splits if_splits)

text \<open>The delay slept before the next attempt is the one \<^const>\<open>calculateRetryDelay\<close> gives.\<close>

lemma attempt_body_sleeps:
  assumes "attempt_body config env a st = (Continue, st1)"
  shows "last (events st1) = Slept (calculateRetryDelay a (merge_retry (cfg_retry config)))"
  using assms
  by (auto simp: attempt_body_def Let_def split: prod.splits sum.splits if_splits)

section \<open>Cancellation before an attempt (C2)\<close>

text \<open>
  C2 at a failing input: default retry policy, the signal aborted before the call. The
  claim promises an \<open>ABORTED\<close> error of phase \<^verbatim>\<open>'init'\<close> (no descriptor is cached); the
  call rejects with a \<open>NETWORK\<close> error of phase \<^verbatim>\<open>'upload'\<close>. No initializer or transport
  call is made.
\<close>

theorem uploadWithRetry_cancelled_before_start:
  "signal_aborted env_cancelled (2 * 1) \<and>
   uploadWithRetry (config_with None put_descriptor) env_cancelled =
     (Inl (ThrownUploadError
        \<lparr>message = ''Aborted'', phase = PhaseUpload, code = NETWORK, status = None,
         detail = Some (DetailError ''Error'' ''Aborted'')\<rparr>),
      initial_state\<lparr>lastError := Some
        \<lparr>message = ''Aborted'', phase = PhaseUpload, code = NETWORK, status = None,
         detail = Some (DetailError ''Error'' ''Aborted'')\<rparr>\<rparr>)"
  by code_simp

section \<open>Reinitialisation after an expired descriptor (C3)\<close>

text \<open>
  C3, as stated, fails when the \<open>EXPIRED\<close> failure comes from the initializer: the init
  endpoint answers 403 to the first call, \<open>reinitOnAuthError\<close> is false, no descriptor is
  cached, and the second attempt calls the initializer again.
\<close>

theorem reinit_law_fails_without_descriptor:
  "attempt_body (config_with (Some retry_twice_no_reinit) put_descriptor) env_init_403_once 1
      initial_state = (Continue, st_init_403) \<and>
   lastError st_init_403 = Some (createErrorFromResponse PhaseInit 403 ''Forbidden'' (Some ''{}'')) \<and>
   code (createErrorFromResponse PhaseInit 403 ''Forbidden'' (Some ''{}'')) = EXPIRED \<and>
   \<not> reinitOnAuthError
       (merge_retry (cfg_retry (config_with (Some retry_twice_no_reinit) put_descriptor))) \<and>
   initCalls (snd (attempt_try (config_with (Some retry_twice_no_reinit) put_descriptor)
      env_init_403_once 2 st_init_403)) = initCalls st_init_403 + 1 \<and>
   events (snd (attempt_try (config_with (Some retry_twice_no_reinit) put_descriptor)
      env_init_403_once 2 st_init_403)) =
     events st_init_403 @ [InitCalled, TransportCalled put_descriptor]"
  by code_simp

text \<open>
  C3, amended. Let an attempt fail with an \<open>EXPIRED\<close> error and the loop go on to the next
  attempt, which starts uncancelled. If \<open>reinitOnAuthError\<close> is true, or if no descriptor
  is cached (the failure came from the initializer), the next attempt makes exactly one
  initializer call, before its transport call, which is made with the new descriptor and
  only if that initializer call succeeds. If \<open>reinitOnAuthError\<close> is false and a
  descriptor is cached, the next attempt makes no initializer call and its transport call
  reuses the cached descriptor.
\<close>

theorem reinit_law:
  assumes failed: "attempt_body config env a st = (Continue, st1)"
      and expired: "lastError st1 = Some e" "code e = EXPIRED"
      and live: "\<not> signal_aborted env (2 * (a + 1))"
      and following: "attempt_try config env (a + 1) st1 = (r, st2)"
  shows "if reinitOnAuthError (merge_retry (cfg_retry config)) \<or> presignConfig st1 = None then
           initCalls st2 = initCalls st1 + 1 \<and>
           (case initializePresign (cfg_mapResponse config) (init_io env (initCalls st1)) of
              Inl err \<Rightarrow>
                events st2 = events st1 @ [InitCalled] \<and>
                transportCalls st2 = transportCalls st1
            | Inr d \<Rightarrow>
                events st2 = events st1 @ [InitCalled, TransportCalled d] \<and>
                transportCalls st2 = transportCalls st1 + 1)
         else
           initCalls st2 = initCalls st1 \<and>
           presignConfig st2 = presignConfig st1 \<and>
           transportCalls st2 = transportCalls st1 + 1 \<and>
           events st2 = events st1 @ [TransportCalled (the (presignConfig st1))]"
proof -
  from attempt_body_Continue [OF failed] expired
  have "isRetryableError e" by auto
  with expired(2) have "status e = Some 403"
    by (auto simp: isRetryableError_def split: if_splits)
  with expired(2) have "requiresReinit e"
    by (simp add: requiresReinit_def)
  with expired(1) have ni: "needs_init (merge_retry (cfg_retry config)) st1 =
      (presignConfig st1 = None \<or> reinitOnAuthError (merge_retry (cfg_retry config)))"
    by (simp add: needs_init_def)
  from following show ?thesis
    unfolding attempt_try_not_aborted [OF live] ni
    by (auto split: sum.splits option.splits if_splits)
qed

theorem reinit_law_witness:
  "attempt_body (config_with (Some retry_twice) put_descriptor) env_upload_403_once 1
      initial_state = (Continue, st_upload_403) \<and>
   lastError st_upload_403 = Some expired_403 \<and> code expired_403 = EXPIRED \<and>
   \<not> signal_aborted env_upload_403_once (2 * (1 + 1)) \<and>
   initCalls (snd (attempt_try (config_with (Some retry_twice) put_descriptor)
      env_upload_403_once (1 + 1) st_upload_403)) = initCalls st_upload_403 + 1 \<and>
   attempt_body (config_with (Some retry_twice_no_reinit) put_descriptor) env_upload_403_once 1
      initial_state = (Continue, st_upload_403) \<and>
   initCalls (snd (attempt_try (config_with (Some retry_twice_no_reinit) put_descriptor)
      env_upload_403_once (1 + 1) st_upload_403)) = initCalls st_upload_403 \<and>
   events (snd (attempt_try (config_with (Some retry_twice_no_reinit) put_descriptor)
      env_upload_403_once (1 + 1) st_upload_403)) =
     events st_upload_403 @ [TransportCalled put_descriptor]"
proof -
  let ?c = "config_with (Some retry_twice) put_descriptor"
  let ?c' = "config_with (Some retry_twice_no_reinit) put_descriptor"
  let ?env = env_upload_403_once
  have h1: "attempt_body ?c ?env 1 initial_state = (Continue, st_upload_403)"
    by code_simp
  have h1': "attempt_body ?c' ?env 1 initial_state = (Continue, st_upload_403)"
    by code_simp
  have h2: "lastError st_upload_403 = Some expired_403"
    by (simp add: st_upload_403_def)
  have h3: "code expired_403 = EXPIRED"
    by code_simp
  have h4: "\<not> signal_aborted ?env (2 * (1 + 1))"
    by (simp add: signal_aborted_def env_upload_403_once_def)
  have h5: "attempt_try ?c ?env (1 + 1) st_upload_403 =
      (fst (attempt_try ?c ?env (1 + 1) st_upload_403),
       snd (attempt_try ?c ?env (1 + 1) st_upload_403))"
    by simp
  have h5': "attempt_try ?c' ?env (1 + 1) st_upload_403 =
      (fst (attempt_try ?c' ?env (1 + 1) st_upload_403),
       snd (attempt_try ?c' ?env (1 + 1) st_upload_403))"
    by simp
  have flag: "reinitOnAuthError (merge_retry (cfg_retry ?c))"
    by code_simp
  have flag': "\<not> reinitOnAuthError (merge_retry (cfg_retry ?c'))"
    by code_simp
  have cached: "presignConfig st_upload_403 = Some put_descriptor"
    by (simp add: st_upload_403_def)
  from reinit_law [OF h1 h2 h3 h4 h5] flag
  have a: "initCalls (snd (attempt_try ?c ?env (1 + 1) st_upload_403)) =
      initCalls st_upload_403 + 1"
    by simp
  from reinit_law [OF h1' h2 h3 h4 h5'] flag' cached
  have b: "initCalls (snd (attempt_try ?c' ?env (1 + 1) st_upload_403)) = initCalls st_upload_403 \<and>
    events (snd (attempt_try ?c' ?env (1 + 1) st_upload_403)) =
      events st_upload_403 @ [TransportCalled put_descriptor]"
    by simp
  from h1 h1' h2 h3 h4 a b show ?thesis by blast
qed

section \<open>The initializer after a successful answer (C5)\<close>

text \<open>
  C5, as stated, fails: the answer is 200, \<^verbatim>\<open>mapResponse\<close> returns a PUT descriptor
  without \<^verbatim>\<open>uploadUrl\<close> and \<^verbatim>\<open>key\<close>, and the initializer returns that object. The
  orchestrator hands it to the transport.
\<close>

theorem initializePresign_returns_invalid_descriptor:
  "resp_ok (response_with 200 ''OK'') \<and>
   \<not> structurally_valid incomplete_descriptor \<and>
   initializePresign map_incomplete (io_answering 200 ''OK'') = Inr incomplete_descriptor \<and>
   events (snd (uploadWithRetry \<lparr>cfg_mapResponse = map_incomplete, cfg_retry = None\<rparr> env_fine)) =
     [InitCalled, TransportCalled incomplete_descriptor]"
  by code_simp

text \<open>
  C5, amended. For every init-endpoint invocation whose response is successful (2xx) and
  whose body parses: if \<^verbatim>\<open>mapResponse\<close> throws a value that is not an
  \<^verbatim>\<open>UploadError\<close>, the initializer fails with an init-phase \<^verbatim>\<open>UploadError\<close> of code
  \<open>NETWORK\<close>, \<open>TIMEOUT\<close> or \<open>ABORTED\<close>; an \<^verbatim>\<open>UploadError\<close> thrown by \<^verbatim>\<open>mapResponse\<close> is
  passed on unchanged; a descriptor returned by \<^verbatim>\<open>mapResponse\<close> is returned as it is,
  without validation.
\<close>

theorem initializePresign_after_success:
  assumes "io_prepare io = None" and "io_fetch io = Inr response" and "resp_ok response"
      and "resp_json response = Inr responseData"
  shows "case mapResponse responseData of
           Inr d \<Rightarrow> initializePresign mapResponse io = Inr d
         | Inl (ThrownUploadError e) \<Rightarrow> initializePresign mapResponse io = Inl e
         | Inl t \<Rightarrow>
            (\<exists>e. initializePresign mapResponse io = Inl e \<and> phase e = PhaseInit \<and>
                  code e \<in> {NETWORK, TIMEOUT, ABORTED})"
  using assms
  by (auto simp: initializePresign_def initializePresign_try_def normalizeError_def
      createAbortError_def createTimeoutError_def createNetworkError_def
      split: sum.splits thrown.splits)

theorem initializePresign_after_success_witness:
  "io_prepare (io_answering 200 ''OK'') = None \<and>
   io_fetch (io_answering 200 ''OK'') = Inr (response_with 200 ''OK'') \<and>
   resp_ok (response_with 200 ''OK'') \<and>
   resp_json (response_with 200 ''OK'') = Inr ''{}'' \<and>
   initializePresign map_incomplete (io_answering 200 ''OK'') = Inr incomplete_descriptor \<and>
   (\<exists>e. initializePresign map_throwing (io_answering 200 ''OK'') = Inl e \<and>
        phase e = PhaseInit \<and> code e \<in> {NETWORK, TIMEOUT, ABORTED})"
proof -
  have h1: "io_prepare (io_answering 200 ''OK'') = None"
    by (simp add: io_answering_def)
  have h2: "io_fetch (io_answering 200 ''OK'') = Inr (response_with 200 ''OK'')"
    by (simp add: io_answering_def)
  have h3: "resp_ok (response_with 200 ''OK'')"
    by (simp add: resp_ok_def response_with_def)
  have h4: "resp_json (response_with 200 ''OK'') = Inr ''{}''"
    by (simp add: response_with_def)
  from initializePresign_after_success [OF h1 h2 h3 h4, of map_incomplete]
  have a: "initializePresign map_incomplete (io_answering 200 ''OK'') = Inr incomplete_descriptor"
    by (simp add: map_incomplete_def)
  from initializePresign_after_success [OF h1 h2 h3 h4, of map_throwing]
  have b: "\<exists>e. initializePresign map_throwing (io_answering 200 ''OK'') = Inl e \<and>
      phase e = PhaseInit \<and> code e \<in> {NETWORK, TIMEOUT, ABORTED}"
    by (simp add: map_throwing_def)
  from h1 h2 h3 h4 a b show ?thesis by blast
qed

section \<open>Progress percentages (C6)\<close>

lemma round_percent_all: "round_percent 1500 1500 = Num 100"
  by code_simp

lemma round_percent_over: "round_percent 1500 1024 = Num 146"
  by code_simp

lemma round_percent_none: "round_percent 0 0 = NaN"
  by code_simp

lemma overall_fold:
  "fold (\<lambda>(index, file) (sumBytes, sumSent).
             (sumBytes + fsize file,
              (case pm index of
                 None \<Rightarrow> sumSent
               | Some progress \<Rightarrow> sumSent + bytesSent progress)))
        (zip [i ..< i + length files] files) (a, b) =
     (a + sum_list (map fsize files),
      b + (\<Sum>j \<leftarrow> [i ..< i + length files]. case pm j of None \<Rightarrow> 0 | Some p \<Rightarrow> bytesSent p))"
proof (induction files arbitrary: i a b)
  case Nil
  then show ?case by simp
next
  case (Cons f fs)
  have upt: "[i ..< i + length (f # fs)] = i # [Suc i ..< Suc i + length fs]"
    by (subst upt_rec) simp
  show ?case
    unfolding upt using Cons.IH [of "Suc i"]
    by (simp split: option.splits)
qed

lemma overall_sums_eq:
  "overall_sums files pm =
     (sum_list (map fsize files),
      (\<Sum>i \<leftarrow> [0 ..< length files]. case pm i of None \<Rightarrow> 0 | Some p \<Rightarrow> bytesSent p))"
  using overall_fold [of pm 0 files 0 0] by (simp add: overall_sums_def)

text \<open>The aggregated progress has the guard: a batch of zero bytes reports 0 percent.\<close>

lemma updateOverallProgress_zero:
  assumes "sum_list (map fsize files) = 0"
      and "updateOverallProgress True files pm = Some p"
  shows "percent p = Num 0"
proof -
  obtain sumBytes sumSent where sums: "overall_sums files pm = (sumBytes, sumSent)"
    by (cases "overall_sums files pm")
  have "fst (overall_sums files pm) = sum_list (map fsize files)"
    by (simp only: overall_sums_eq fst_conv)
  with sums assms(1) have "sumBytes = 0"
    by (simp only: fst_conv)
  with sums assms(2) show ?thesis
    by (auto simp: updateOverallProgress_def)
qed

lemma xhr_empty_progress:
  "xhr_progress_calls True None [(1700000000000, empty_progress)] =
     [\<lparr>bytesSent = 0, totalBytes = 0, percent = NaN\<rparr>]"
  by (simp add: xhr_progress_calls_def new_ProgressThrottler_def xhr_on_progress_def
      shouldEmit_def empty_progress_def round_percent_none)

lemma xhr_multipart_done:
  "xhr_progress_calls True None [(1700000000000, multipart_done)] =
     [\<lparr>bytesSent = 1500, totalBytes = 1500, percent = Num 100\<rparr>]"
  by (simp add: xhr_progress_calls_def new_ProgressThrottler_def xhr_on_progress_def
      shouldEmit_def multipart_done_def round_percent_all)

lemma overall_after_multipart:
  "snd (on_each_progress True [small_file] 0
          \<lparr>bytesSent = 1500, totalBytes = 1500, percent = Num 100\<rparr> Map.empty) =
     Some \<lparr>bytesSent = 1500, totalBytes = 1024, percent = Num 146\<rparr>"
  by (simp add: on_each_progress_def updateOverallProgress_def overall_sums_def small_file_def
      round_percent_over Let_def)

text \<open>
  C6 at two failing inputs. A progress event with a computable length of zero bytes makes
  the streaming transport report \<^verbatim>\<open>NaN\<close> percent, where the claim defines 0: the
  division by \<^verbatim>\<open>event.total\<close> has no guard, unlike the one in
  \<^verbatim>\<open>updateOverallProgress\<close>. The last progress event of a POST upload of a file of 1024
  bytes counts the 1500 bytes of the multipart body; the aggregated progress of the batch
  then reports 1500 of 1024 bytes and 146 percent, outside \<open>[0, 100]\<close>.
\<close>

theorem progress_percent_out_of_range:
  "xhr_progress_calls True None [(1700000000000, empty_progress)] =
     [\<lparr>bytesSent = 0, totalBytes = 0, percent = NaN\<rparr>] \<and>
   xhr_progress_calls True None [(1700000000000, multipart_done)] =
     [\<lparr>bytesSent = 1500, totalBytes = 1500, percent = Num 100\<rparr>] \<and>
   snd (on_each_progress True [small_file] 0
          \<lparr>bytesSent = 1500, totalBytes = 1500, percent = Num 100\<rparr> Map.empty) =
     Some \<lparr>bytesSent = 1500, totalBytes = 1024, percent = Num 146\<rparr>"
  using xhr_empty_progress xhr_multipart_done overall_after_multipart by blast

section \<open>The throttler and the terminal progress event (C7)\<close>

lemma shouldEmit_intervalMs: "intervalMs (snd (shouldEmit now th)) = intervalMs th"
  by (simp add: shouldEmit_def)

lemma shouldEmit_lastEmit_mono:
  "0 \<le> intervalMs th \<Longrightarrow> lastEmit th \<le> lastEmit (snd (shouldEmit now th))"
  by (simp add: shouldEmit_def)

text \<open>While the clock reads less than the interval past \<open>lastEmit\<close>, the gate stays shut.\<close>

lemma shouldEmit_run_closed:
  assumes "0 \<le> intervalMs th" and "k < length ts" and "ts ! k - lastEmit th < intervalMs th"
  shows "\<not> shouldEmit_run ts th ! k"
  using assms
proof (induction ts arbitrary: th k)
  case Nil
  then show ?case by simp
next
  case (Cons now ts)
  obtain b th' where step: "shouldEmit now th = (b, th')"
    by (cases "shouldEmit now th")
  show ?case
  proof (cases k)
    case 0
    with Cons.prems step show ?thesis
      by (auto simp: shouldEmit_def split: if_splits)
  next
    case (Suc k')
    have "intervalMs th' = intervalMs th"
      using shouldEmit_intervalMs [of now th] step by simp
    moreover have "lastEmit th \<le> lastEmit th'"
      using shouldEmit_lastEmit_mono [of th now] step Cons.prems(1) by simp
    ultimately have "\<not> shouldEmit_run ts th' ! k'"
      using Cons.prems Suc by (intro Cons.IH) auto
    with step Suc show ?thesis by simp
  qed
qed

lemma shouldEmit_run_gate:
  assumes "0 \<le> intervalMs th" and "i < j" and "j < length ts"
      and "shouldEmit_run ts th ! i" and "ts ! j - ts ! i < intervalMs th"
  shows "\<not> shouldEmit_run ts th ! j"
  using assms
proof (induction ts arbitrary: th i j)
  case Nil
  then show ?case by simp
next
  case (Cons now ts)
  obtain b th' where step: "shouldEmit now th = (b, th')"
    by (cases "shouldEmit now th")
  have iv: "intervalMs th' = intervalMs th"
    using shouldEmit_intervalMs [of now th] step by simp
  from Cons.prems(2) obtain j' where j: "j = Suc j'"
    by (cases j) auto
  show ?case
  proof (cases i)
    case 0
    with Cons.prems(4) step have "b" by simp
    with step have "lastEmit th' = now"
      by (auto simp: shouldEmit_def split: if_splits)
    with Cons.prems 0 j iv have "\<not> shouldEmit_run ts th' ! j'"
      by (intro shouldEmit_run_closed) auto
    with step j show ?thesis by simp
  next
    case (Suc i')
    with Cons.prems j iv step have "\<not> shouldEmit_run ts th' ! j'"
      by (intro Cons.IH [of th' i' j']) auto
    with step j show ?thesis by simp
  qed
qed

lemma xhr_listen_terminal:
  assumes "(now, ev) \<in> set evs" and "lengthComputable ev" and "loaded ev = total_ev ev"
  shows "\<lparr>bytesSent = loaded ev, totalBytes = total_ev ev,
          percent = round_percent (loaded ev) (total_ev ev)\<rparr> \<in> set (xhr_listen evs th)"
  using assms
proof (induction evs arbitrary: th)
  case Nil
  then show ?case by simp
next
  case (Cons x evs)
  obtain now' ev' where x: "x = (now', ev')" by (cases x)
  obtain r th' where step: "xhr_on_progress now' ev' th = (r, th')"
    by (cases "xhr_on_progress now' ev' th")
  show ?case
  proof (cases "x = (now, ev)")
    case True
    with x step Cons.prems(2,3) show ?thesis
      by (auto simp: xhr_on_progress_def split: prod.splits if_splits)
  next
    case False
    with Cons.prems have "(now, ev) \<in> set evs" by simp
    from Cons.IH [OF this Cons.prems(2,3), of th'] x step show ?thesis
      by (cases r) auto
  qed
qed

text \<open>Progress events of non-computable length pass the listener without any effect.\<close>

lemma xhr_listen_filter:
  "xhr_listen (filter (\<lambda>(now, ev). lengthComputable ev) evs) th = xhr_listen evs th"
proof (induction evs arbitrary: th)
  case Nil
  then show ?case by simp
next
  case (Cons x evs)
  obtain now ev where x: "x = (now, ev)" by (cases x)
  show ?case
  proof (cases "lengthComputable ev")
    case True
    with x Cons.IH show ?thesis
      by (simp split: prod.splits option.splits)
  next
    case False
    then have "xhr_on_progress now ev th = (None, th)"
      by (simp add: xhr_on_progress_def)
    with x False Cons.IH show ?thesis by simp
  qed
qed

text \<open>
  Among the events of computable length, the listener hands over exactly those for which
  \<^verbatim>\<open>shouldEmit\<close> returns true or \<^verbatim>\<open>loaded === total\<close> holds; \<^verbatim>\<open>shouldEmit\<close> is called
  once for each of them, on the throttler of the upload.
\<close>

lemma xhr_listen_gate:
  assumes "\<forall>(now, ev) \<in> set evs. lengthComputable ev"
  shows "xhr_listen evs th =
     map (\<lambda>(g, now, ev). \<lparr>bytesSent = loaded ev, totalBytes = total_ev ev,
                            percent = round_percent (loaded ev) (total_ev ev)\<rparr>)
       (filter (\<lambda>(g, now, ev). g \<or> loaded ev = total_ev ev)
          (zip (shouldEmit_run (map fst evs) th) evs))"
  using assms
proof (induction evs arbitrary: th)
  case Nil
  then show ?case by simp
next
  case (Cons x evs)
  obtain now ev where x: "x = (now, ev)" by (cases x)
  obtain b th' where step: "shouldEmit now th = (b, th')"
    by (cases "shouldEmit now th")
  from Cons.prems x have lc: "lengthComputable ev" and rest: "\<forall>(now, ev) \<in> set evs. lengthComputable ev"
    by auto
  from Cons.IH [OF rest, of th'] x step lc show ?case
    by (simp add: xhr_on_progress_def)
qed

text \<open>
  C7, as stated, fails for the terminal event of an upload whose body has zero bytes: its
  length is not computable, \<^verbatim>\<open>loaded\<close> equals \<^verbatim>\<open>total\<close>, and the listener, which tests
  \<^verbatim>\<open>event.lengthComputable\<close> first, does not hand it to the callback. The gate itself
  fails only for a negative interval on a clock that runs backwards: with an interval of
  \<open>-5\<close> ms the third call below is made 6 ms before the first one, which is less than
  \<open>-5\<close> ms after it, and returns true.
\<close>

theorem terminal_event_dropped:
  "loaded zero_byte_done = total_ev zero_byte_done \<and>
   xhr_progress_calls True None [(1700000000000, zero_byte_done)] = [] \<and>
   shouldEmit_run [1700000000000, 1699999999995, 1699999999994]
     (new_ProgressThrottler (Some (- 5))) = [True, True, True] \<and>
   (1699999999994 :: int) - 1700000000000 < - 5"
  by (simp add: zero_byte_done_def xhr_progress_calls_def xhr_on_progress_def shouldEmit_def
      new_ProgressThrottler_def)

text \<open>
  C7, amended. Take the calls of \<^verbatim>\<open>shouldEmit\<close> on a throttler constructed with the
  interval \<open>I\<close> (120 ms when none is configured), in order, with the clock reading of each
  (\<open>ts\<close>); let \<open>I\<close> be not negative, or the clock not run backwards. If call \<open>i\<close>
  returns true, every later call \<open>j\<close> made less than \<open>I\<close> milliseconds after it returns
  false. A progress event with \<^verbatim>\<open>loaded === total\<close> is handed to the progress callback
  whatever the throttler says, if its length is computable; events of non-computable
  length are never handed over and leave the throttler untouched.
\<close>

theorem throttler_gate:
  "(i < j \<and> j < length ts \<and> shouldEmit_run ts (new_ProgressThrottler cfg) ! i \<and>
    ts ! j - ts ! i < (case cfg of None \<Rightarrow> 120 | Some I \<Rightarrow> I) \<and>
    (0 \<le> (case cfg of None \<Rightarrow> 120 | Some I \<Rightarrow> I) \<or> sorted ts) \<longrightarrow>
      \<not> shouldEmit_run ts (new_ProgressThrottler cfg) ! j) \<and>
   ((now, ev) \<in> set evs \<and> lengthComputable ev \<and> loaded ev = total_ev ev \<longrightarrow>
      \<lparr>bytesSent = loaded ev, totalBytes = total_ev ev,
       percent = round_percent (loaded ev) (total_ev ev)\<rparr>
        \<in> set (xhr_progress_calls True cfg evs)) \<and>
   xhr_progress_calls True cfg (filter (\<lambda>(now, ev). lengthComputable ev) evs) =
     xhr_progress_calls True cfg evs"
proof (intro conjI impI)
  let ?I = "case cfg of None \<Rightarrow> 120 | Some I \<Rightarrow> I"
  let ?th = "new_ProgressThrottler cfg"
  assume a: "i < j \<and> j < length ts \<and> shouldEmit_run ts ?th ! i \<and>
    ts ! j - ts ! i < ?I \<and> (0 \<le> ?I \<or> sorted ts)"
  have iv: "intervalMs ?th = ?I"
    by (simp add: new_ProgressThrottler_def)
  have "0 \<le> ?I"
  proof (rule ccontr)
    assume neg: "\<not> 0 \<le> ?I"
    with a have "sorted ts" by simp
    with a have "ts ! i \<le> ts ! j"
      by (auto intro: sorted_nth_mono)
    with a neg show False by simp
  qed
  with a iv show "\<not> shouldEmit_run ts ?th ! j"
    by (intro shouldEmit_run_gate [of ?th i j ts]) auto
next
  assume h: "(now, ev) \<in> set evs \<and> lengthComputable ev \<and> loaded ev = total_ev ev"
  have "\<lparr>bytesSent = loaded ev, totalBytes = total_ev ev,
       percent = round_percent (loaded ev) (total_ev ev)\<rparr>
        \<in> set (xhr_listen evs (new_ProgressThrottler cfg))"
    by (rule xhr_listen_terminal [of now]) (use h in blast)+
  then show "\<lparr>bytesSent = loaded ev, totalBytes = total_ev ev,
       percent = round_percent (loaded ev) (total_ev ev)\<rparr>
        \<in> set (xhr_progress_calls True cfg evs)"
    by (simp only: xhr_progress_calls_def if_True)
next
  show "xhr_progress_calls True cfg (filter (\<lambda>(now, ev). lengthComputable ev) evs) =
     xhr_progress_calls True cfg evs"
    by (simp only: xhr_progress_calls_def if_True xhr_listen_filter)
qed

lemma round_percent_full: "round_percent 1024 1024 = Num 100"
  by code_simp

theorem throttler_gate_witness:
  "(0 :: nat) < 1 \<and> 1 < length [1000, 1040 :: int] \<and>
   shouldEmit_run [1000, 1040] (new_ProgressThrottler (Some 50)) ! 0 \<and>
   [1000, 1040 :: int] ! 1 - [1000, 1040] ! 0 < 50 \<and>
   \<not> shouldEmit_run [1000, 1040] (new_ProgressThrottler (Some 50)) ! 1 \<and>
   (1020, all_sent) \<in> set [(1000, half_way), (1010, half_way), (1020, all_sent)] \<and>
   lengthComputable all_sent \<and> loaded all_sent = total_ev all_sent \<and>
   \<lparr>bytesSent = 1024, totalBytes = 1024, percent = Num 100\<rparr>
     \<in> set (xhr_progress_calls True (Some 50)
              [(1000, half_way), (1010, half_way), (1020, all_sent)])"
proof -
  have h1: "shouldEmit_run [1000, 1040] (new_ProgressThrottler (Some 50)) ! 0"
    by (simp add: shouldEmit_def new_ProgressThrottler_def)
  have h2: "[1000, 1040 :: int] ! 1 - [1000, 1040] ! 0 < 50"
    by simp
  have h4: "lengthComputable all_sent \<and> loaded all_sent = total_ev all_sent"
    by (simp add: all_sent_def)
  have h5: "(1020, all_sent) \<in> set [(1000, half_way), (1010, half_way), (1020, all_sent)]"
    by simp
  have l: "loaded all_sent = 1024" "total_ev all_sent = 1024"
    by (simp_all add: all_sent_def)
  from throttler_gate [of 0 1 "[1000, 1040]" "Some 50" 1020 all_sent
      "[(1000, half_way), (1010, half_way), (1020, all_sent)]"] h1 h2 h4 h5
  have "\<not> shouldEmit_run [1000, 1040] (new_ProgressThrottler (Some 50)) ! 1 \<and>
    \<lparr>bytesSent = loaded all_sent, totalBytes = total_ev all_sent,
      percent = round_percent (loaded all_sent) (total_ev all_sent)\<rparr>
     \<in> set (xhr_progress_calls True (Some 50)
              [(1000, half_way), (1010, half_way), (1020, all_sent)])"
    by simp
  then have c: "\<not> shouldEmit_run [1000, 1040] (new_ProgressThrottler (Some 50)) ! 1 \<and>
    \<lparr>bytesSent = 1024, totalBytes = 1024, percent = Num 100\<rparr>
     \<in> set (xhr_progress_calls True (Some 50)
              [(1000, half_way), (1010, half_way), (1020, all_sent)])"
    unfolding l unfolding round_percent_full .
  from h1 h2 h4 h5 c show ?thesis by simp
qed

section \<open>The multipart body of a POST upload (C8)\<close>

lemma fold_append_entries:
  "fold (\<lambda>(k, v) fd. fd @ [(k, TextValue v)]) fs acc = acc @ map (\<lambda>(k, v). (k, TextValue v)) fs"
  by (induction fs arbitrary: acc) (auto split: prod.splits)

text \<open>
  C8. For a POST descriptor (with its \<^verbatim>\<open>fields\<close>), the streaming and the plain
  transport send the same request: a multipart body that holds every policy field, in the
  order of the descriptor, and then the file as its last entry. The file's field name is
  \<^verbatim>\<open>postFileFieldName\<close> when that is configured (present and not the empty string, which
  \<^verbatim>\<open>||\<close> treats as absent) and \<^verbatim>\<open>'file'\<close> otherwise.
\<close>

theorem post_fields_before_file:
  assumes "mode config = ModePost" and "policyFields config = Some fs"
  shows "xhr_request config file =
           Inr \<lparr>req_method = POST, req_url = uploadUrl config, req_headers = [],
                req_body = FormDataBody
                  (map (\<lambda>(k, v). (k, TextValue v)) fs @ [(fileFieldName config, FileValue file)])\<rparr> \<and>
         fetch_request config file = xhr_request config file \<and>
         fileFieldName config =
           (case postFileFieldName config of
              None \<Rightarrow> ''file''
            | Some n \<Rightarrow> if n = [] then ''file'' else n)"
  using assms
  by (simp add: xhr_request_def fetch_request_def fold_append_entries fileFieldName_def Let_def)

theorem post_fields_before_file_witness:
  "mode post_descriptor = ModePost \<and>
   policyFields post_descriptor = Some [(''key'', ''test-key-post''), (''Policy'', ''test-policy'')] \<and>
   xhr_request post_descriptor small_file =
     Inr \<lparr>req_method = POST, req_url = Some ''https://test-bucket.s3.amazonaws.com'',
          req_headers = [],
          req_body = FormDataBody
            [(''key'', TextValue ''test-key-post''), (''Policy'', TextValue ''test-policy''),
             (''custom_file_field'', FileValue small_file)]\<rparr> \<and>
   fetch_request post_descriptor small_file = xhr_request post_descriptor small_file \<and>
   fileFieldName (post_descriptor\<lparr>postFileFieldName := None\<rparr>) = ''file''"
proof -
  have h1: "mode post_descriptor = ModePost"
    by (simp add: post_descriptor_def)
  have h2: "policyFields post_descriptor =
      Some [(''key'', ''test-key-post''), (''Policy'', ''test-policy'')]"
    by (simp add: post_descriptor_def)
  have h1': "mode (post_descriptor\<lparr>postFileFieldName := None\<rparr>) = ModePost"
    by (simp add: post_descriptor_def)
  have h2': "policyFields (post_descriptor\<lparr>postFileFieldName := None\<rparr>) =
      Some [(''key'', ''test-key-post''), (''Policy'', ''test-policy'')]"
    by (simp add: post_descriptor_def)
  from post_fields_before_file [OF h1 h2, of small_file]
  have a: "xhr_request post_descriptor small_file =
     Inr \<lparr>req_method = POST, req_url = Some ''https://test-bucket.s3.amazonaws.com'',
          req_headers = [],
          req_body = FormDataBody
            [(''key'', TextValue ''test-key-post''), (''Policy'', TextValue ''test-policy''),
             (''custom_file_field'', FileValue small_file)]\<rparr> \<and>
     fetch_request post_descriptor small_file = xhr_request post_descriptor small_file"
    by (simp add: post_descriptor_def)
  from post_fields_before_file [OF h1' h2', of small_file]
  have b: "fileFieldName (post_descriptor\<lparr>postFileFieldName := None\<rparr>) = ''file''"
    by (simp add: post_descriptor_def)
  from h1 h2 a b show ?thesis by blast
qed

section \<open>The concurrency bound of a batch (C9)\<close>

lemma sched_inv_new: "sched_inv k [] 0 (new_Controller k)"
  by (simp add: sched_inv_def new_Controller_def)

lemma sched_inv_execute:
  assumes "sched_inv k subm settled c"
  shows "sched_inv k (subm @ [t]) settled (execute t c)"
  using assms
  by (auto simp: sched_inv_def execute_def executeTask_def)

lemma sched_inv_settled:
  assumes "sched_inv k subm settled c" and "task_settled t c = Some c'"
  shows "sched_inv k subm (Suc settled) c'"
proof -
  from assms(2) have mem: "t \<in> set (inFlight c)" and
    c': "c' = processQueue (c\<lparr>running := running c - 1, inFlight := remove1 t (inFlight c)\<rparr>)"
    by (auto simp: task_settled_def split: if_splits)
  from mem have pos: "0 < length (inFlight c)"
    by (cases "inFlight c") auto
  with assms(1) have run: "0 < running c"
    by (simp add: sched_inv_def)
  have len: "length (remove1 t (inFlight c)) = length (inFlight c) - 1"
    using mem by (simp add: length_remove1)
  show ?thesis
  proof (cases "queue c")
    case Nil
    with assms(1) run len show ?thesis
      unfolding c' by (auto simp: sched_inv_def processQueue_def)
  next
    case (Cons q qs)
    with assms(1) run len pos show ?thesis
      unfolding c' by (auto simp: sched_inv_def processQueue_def executeTask_def)
  qed
qed

lemma submitted_length: "length (submitted es) \<le> length es"
  by (induction es rule: submitted.induct) auto

lemma sched_run_inv:
  assumes "sched_inv k subm settled c" and "sched_run es c = Some c'"
  shows "sched_inv k (subm @ submitted es) (settled + (length es - length (submitted es))) c'"
  using assms
proof (induction es arbitrary: c subm settled)
  case Nil
  then show ?case by simp
next
  case (Cons e es)
  show ?case
  proof (cases e)
    case (Execute t)
    with Cons.prems have run: "sched_run es (execute t c) = Some c'" by simp
    from Cons.IH [OF sched_inv_execute [OF Cons.prems(1), of t] run] Execute
    show ?thesis by simp
  next
    case (Settled t)
    with Cons.prems obtain c1 where c1: "task_settled t c = Some c1"
      and run: "sched_run es c1 = Some c'"
      by (auto split: option.splits)
    from Cons.IH [OF sched_inv_settled [OF Cons.prems(1) c1] run] Settled submitted_length [of es]
    show ?thesis by (simp add: Suc_diff_le)
  qed
qed

lemma submitted_uploadMany: "submitted (uploadMany_schedule n settles) = [0 ..< n]"
proof -
  have a: "submitted (map Execute xs @ es) = xs @ submitted es" for xs es
    by (induction xs) auto
  have b: "submitted (map Settled xs) = []" for xs
    by (induction xs) auto
  show ?thesis by (simp add: uploadMany_schedule_def a b)
qed

lemma append_upt_split:
  assumes "xs @ ys = [0 ..< n]"
  shows "xs = [0 ..< length xs] \<and> ys = [length xs ..< n]"
proof -
  have le: "length xs \<le> n"
    using arg_cong [OF assms, of length] by simp
  then have "[0 ..< n] = [0 ..< length xs] @ [length xs ..< n]"
    using upt_add_eq_append [of 0 "length xs" "n - length xs"] by simp
  with assms have "xs @ ys = [0 ..< length xs] @ [length xs ..< n]" by simp
  then show ?thesis by simp
qed

text \<open>
  C9. At every instant of \<^verbatim>\<open>uploadMany\<close> over \<open>n\<close> files with concurrency bound \<open>k\<close>,
  the running count is at most \<open>k\<close> and is the number of tasks in flight. When
  \<open>length settles\<close> tasks have settled, the tasks started so far are exactly the first
  \<open>min n (k + length settles)\<close> files, started in input order, and the other files wait
  in the queue in input order: the first \<open>k\<close> files start at once, and each task that
  settles frees the slot for the next file of the queue.
\<close>

theorem concurrency_bound:
  assumes "sched_run (uploadMany_schedule n settles) (new_Controller k) = Some c"
  shows "running c \<le> k \<and> length (inFlight c) = running c \<and>
         started c = [0 ..< min n (k + length settles)] \<and>
         queue c = [min n (k + length settles) ..< n]"
proof -
  from sched_run_inv [OF sched_inv_new assms]
  have "sched_inv k [0 ..< n] (length settles) c"
    by (simp add: submitted_uploadMany) (simp add: uploadMany_schedule_def)
  then have inv: "running c \<le> k" "length (inFlight c) = running c"
      "started c @ queue c = [0 ..< n]" "queue c = [] \<or> running c = k"
      "length (started c) = running c + length settles"
    by (simp_all add: sched_inv_def)
  from append_upt_split [OF inv(3)]
  have split: "started c = [0 ..< length (started c)]" "queue c = [length (started c) ..< n]"
    by simp_all
  have total_len: "length (started c) + length (queue c) = n"
    using arg_cong [OF inv(3), of length] by simp
  have "length (started c) = min n (k + length settles)"
  proof (cases "queue c = []")
    case True
    with total_len inv(1,5) show ?thesis by simp
  next
    case False
    then have "0 < length (queue c)" by simp
    with False total_len inv(4,5) show ?thesis by simp
  qed
  with split inv(1,2) show ?thesis by simp
qed

theorem concurrency_bound_witness:
  "sched_run (uploadMany_schedule 5 [1, 0, 3]) (new_Controller 2) =
     Some \<lparr>running = 2, queue = [], maxConcurrency = 2, inFlight = [2, 4],
           started = [0, 1, 2, 3, 4]\<rparr> \<and>
   sched_run (uploadMany_schedule 5 [1]) (new_Controller 2) =
     Some \<lparr>running = 2, queue = [3, 4], maxConcurrency = 2, inFlight = [0, 2],
           started = [0, 1, 2]\<rparr> \<and>
   [0, 1, 2, 3, 4] = [0 ..< min 5 (2 + length [1, 0, 3 :: nat])] \<and>
   [0, 1, 2] = [0 ..< min 5 (2 + length [1 :: nat])] \<and>
   [3, 4] = [min 5 (2 + length [1 :: nat]) ..< 5]"
proof -
  have h: "sched_run (uploadMany_schedule 5 [1, 0, 3]) (new_Controller 2) =
     Some \<lparr>running = 2, queue = [], maxConcurrency = 2, inFlight = [2, 4],
           started = [0, 1, 2, 3, 4]\<rparr>"
    by (simp add: uploadMany_schedule_def new_Controller_def execute_def executeTask_def
        task_settled_def processQueue_def upt_conv_Cons)
  have h': "sched_run (uploadMany_schedule 5 [1]) (new_Controller 2) =
     Some \<lparr>running = 2, queue = [3, 4], maxConcurrency = 2, inFlight = [0, 2],
           started = [0, 1, 2]\<rparr>"
    by (simp add: uploadMany_schedule_def new_Controller_def execute_def executeTask_def
        task_settled_def processQueue_def upt_conv_Cons)
  from concurrency_bound [OF h] concurrency_bound [OF h'] h h' show ?thesis
    by simp
qed

section \<open>Progress in the plain transport (C10)\<close>

text \<open>
  C10. Whatever the descriptor, the file, the answer of the network and the outcome, and
  whether or not the caller supplied \<^verbatim>\<open>onProgress\<close>, \<^verbatim>\<open>FetchTransport.upload\<close> hands no
  progress value to the callback: not during the transfer and not on success.
\<close>

theorem fetch_never_reports_progress:
  "snd (FetchTransport_upload config file onProgress fetch) = []"
  by (simp add: FetchTransport_upload_def split: sum.splits thrown.splits)

end
